theory Spec2Isabelle
  imports Complex_Main
begin

chapter \<open>FrameFolio: the upload modals and the ingestion pipeline\<close>

text \<open>
  The three modals of the upload flow (crop positioning, duplicate resolution, upload
  progress) are embedded from the front end's sources. The server they talk to is
  embedded from the specification. Definitions come first, properties after them.
\<close>

section \<open>JavaScript numbers\<close>

text \<open>
  The front end computes with JavaScript numbers. A number is modelled as an exact
  rational or one of the three special values; rounding of finite results and the sign of
  zero are not modelled (a zero divisor counts as \<open>+0\<close>). The special values are kept
  because the crop modal divides by a preview dimension that the server's data controls:
  \<open>0 / 0\<close> is \<open>NaN\<close>, and \<open>Math.max\<close> and \<open>Math.min\<close> return \<open>NaN\<close> as soon as
  one argument is \<open>NaN\<close>.
\<close>

datatype jsnum = Num rat | PosInf | NegInf | NaN

fun js_neg :: "jsnum \<Rightarrow> jsnum" where
  "js_neg (Num a) = Num (- a)"
| "js_neg PosInf = NegInf"
| "js_neg NegInf = PosInf"
| "js_neg NaN = NaN"

fun js_add :: "jsnum \<Rightarrow> jsnum \<Rightarrow> jsnum" where
  "js_add (Num a) (Num b) = Num (a + b)"
| "js_add NaN _ = NaN"
| "js_add _ NaN = NaN"
| "js_add PosInf NegInf = NaN"
| "js_add NegInf PosInf = NaN"
| "js_add PosInf _ = PosInf"
| "js_add _ PosInf = PosInf"
| "js_add NegInf _ = NegInf"
| "js_add _ NegInf = NegInf"

definition js_sub :: "jsnum \<Rightarrow> jsnum \<Rightarrow> jsnum" where
  "js_sub a b = js_add a (js_neg b)"

fun js_mul :: "jsnum \<Rightarrow> jsnum \<Rightarrow> jsnum" where
  "js_mul (Num a) (Num b) = Num (a * b)"
| "js_mul NaN _ = NaN"
| "js_mul _ NaN = NaN"
| "js_mul (Num a) PosInf = (if a = 0 then NaN else if 0 < a then PosInf else NegInf)"
| "js_mul (Num a) NegInf = (if a = 0 then NaN else if 0 < a then NegInf else PosInf)"
| "js_mul PosInf (Num b) = (if b = 0 then NaN else if 0 < b then PosInf else NegInf)"
| "js_mul NegInf (Num b) = (if b = 0 then NaN else if 0 < b then NegInf else PosInf)"
| "js_mul PosInf PosInf = PosInf"
| "js_mul PosInf NegInf = NegInf"
| "js_mul NegInf PosInf = NegInf"
| "js_mul NegInf NegInf = PosInf"

fun js_div :: "jsnum \<Rightarrow> jsnum \<Rightarrow> jsnum" where
  "js_div (Num a) (Num b) =
     (if b = 0 then (if a = 0 then NaN else if 0 < a then PosInf else NegInf)
      else Num (a / b))"
| "js_div NaN _ = NaN"
| "js_div _ NaN = NaN"
| "js_div (Num a) PosInf = Num 0"
| "js_div (Num a) NegInf = Num 0"
| "js_div PosInf (Num b) = (if 0 \<le> b then PosInf else NegInf)"
| "js_div NegInf (Num b) = (if 0 \<le> b then NegInf else PosInf)"
| "js_div PosInf PosInf = NaN"
| "js_div PosInf NegInf = NaN"
| "js_div NegInf PosInf = NaN"
| "js_div NegInf NegInf = NaN"

text \<open>The comparison \<open>a < b\<close>; every comparison with \<open>NaN\<close> is false.\<close>

fun js_lt :: "jsnum \<Rightarrow> jsnum \<Rightarrow> bool" where
  "js_lt (Num a) (Num b) = (a < b)"
| "js_lt NaN _ = False"
| "js_lt _ NaN = False"
| "js_lt _ NegInf = False"
| "js_lt PosInf _ = False"
| "js_lt NegInf _ = True"
| "js_lt _ PosInf = True"

definition js_gt :: "jsnum \<Rightarrow> jsnum \<Rightarrow> bool" where
  "js_gt a b = js_lt b a"

fun js_le :: "jsnum \<Rightarrow> jsnum \<Rightarrow> bool" where
  "js_le NaN _ = False"
| "js_le _ NaN = False"
| "js_le a b = (\<not> js_lt b a)"

text \<open>\<open>Math.max\<close> and \<open>Math.min\<close> of two arguments.\<close>

fun Math_max :: "jsnum \<Rightarrow> jsnum \<Rightarrow> jsnum" where
  "Math_max NaN _ = NaN"
| "Math_max _ NaN = NaN"
| "Math_max a b = (if js_lt a b then b else a)"

fun Math_min :: "jsnum \<Rightarrow> jsnum \<Rightarrow> jsnum" where
  "Math_min NaN _ = NaN"
| "Math_min _ NaN = NaN"
| "Math_min a b = (if js_lt b a then b else a)"


section \<open>The crop positioning modal\<close>

text \<open>
  \<open>CropPositioningModal\<close> (components/modals/CropPositioningModal.jsx, and the longer
  copy of the same component in the upload modals file). The props are the paused file's
  result and the job id; the state is the four \<open>useState\<close> cells.
\<close>

record CropBox =
  crop_x :: jsnum
  crop_y :: jsnum
  crop_width :: jsnum
  crop_height :: jsnum

record aspect_info =
  ai_width :: rat
  ai_height :: rat

record crop_result =
  cr_filename :: string
  cr_aspect_info :: aspect_info

record offset =
  off_x :: jsnum
  off_y :: jsnum

record crop_state =
  cropBox :: CropBox
  isDragging :: bool
  dragOffset :: offset
  isSubmitting :: bool

text \<open>The initial values handed to \<open>useState\<close> when the modal is mounted for a result.\<close>

definition CropPositioningModal_init :: "crop_result \<Rightarrow> crop_state" where
  "CropPositioningModal_init result =
     \<lparr>cropBox = \<lparr>crop_x = Num (1 / 10), crop_y = Num (1 / 10),
                  crop_width = Num (8 / 10), crop_height = Num (8 / 10)\<rparr>,
      isDragging = False,
      dragOffset = \<lparr>off_x = Num 0, off_y = Num 0\<rparr>,
      isSubmitting = False\<rparr>"

definition displayAspect :: "aspect_info \<Rightarrow> jsnum" where
  "displayAspect ai = js_div (Num (ai_width ai)) (Num (ai_height ai))"

text \<open>
  The target aspect that the longer copy of the modal declares as a local constant; no
  other code reads it.
\<close>

definition targetAspect :: jsnum where
  "targetAspect = js_div (Num 3840) (Num 2160)"

definition maxWidth :: jsnum where
  "maxWidth = Num 400"

definition maxHeight :: jsnum where
  "maxHeight = Num 400"

definition previewWidth :: "aspect_info \<Rightarrow> jsnum" where
  "previewWidth ai =
     (if js_gt (displayAspect ai) (js_div maxWidth maxHeight) then maxWidth
      else js_mul maxHeight (displayAspect ai))"

definition previewHeight :: "aspect_info \<Rightarrow> jsnum" where
  "previewHeight ai =
     (if js_gt (displayAspect ai) (js_div maxWidth maxHeight)
      then js_div maxWidth (displayAspect ai)
      else maxHeight)"

text \<open>
  A mouse event carries \<open>clientX\<close> and \<open>clientY\<close>; the handlers also read the
  container's bounding rectangle, which is absent while \<open>containerRef.current\<close> is null.
  The DOM delivers finite coordinates.
\<close>

record rect =
  rect_left :: rat
  rect_top :: rat

datatype mouse_event =
    MouseDown "rect option" rat rat
  | MouseMove "rect option" rat rat
  | MouseUp

definition handleMouseDown :: "crop_state \<Rightarrow> rect option \<Rightarrow> rat \<Rightarrow> rat \<Rightarrow> crop_state" where
  "handleMouseDown st container clientX clientY =
     (case container of
        None \<Rightarrow> st
      | Some r \<Rightarrow>
          st\<lparr>isDragging := True,
             dragOffset := \<lparr>off_x = js_sub (Num clientX) (Num (rect_left r)),
                            off_y = js_sub (Num clientY) (Num (rect_top r))\<rparr>\<rparr>)"

text \<open>The updater passed to \<open>setCropBox\<close>: width and height are spread unchanged.\<close>

definition moveCropBox :: "CropBox \<Rightarrow> jsnum \<Rightarrow> jsnum \<Rightarrow> CropBox" where
  "moveCropBox prev deltaX deltaY =
     prev\<lparr>crop_x := Math_max (Num 0)
                 (Math_min (js_sub (Num 1) (crop_width prev)) (js_add (crop_x prev) deltaX)),
          crop_y := Math_max (Num 0)
                 (Math_min (js_sub (Num 1) (crop_height prev)) (js_add (crop_y prev) deltaY))\<rparr>"

definition handleMouseMove ::
  "aspect_info \<Rightarrow> crop_state \<Rightarrow> rect option \<Rightarrow> rat \<Rightarrow> rat \<Rightarrow> crop_state" where
  "handleMouseMove ai st container clientX clientY =
     (case container of
        None \<Rightarrow> st
      | Some r \<Rightarrow>
          if \<not> isDragging st then st
          else
            let currentX = js_sub (Num clientX) (Num (rect_left r));
                currentY = js_sub (Num clientY) (Num (rect_top r));
                deltaX = js_div (js_sub currentX (off_x (dragOffset st))) (previewWidth ai);
                deltaY = js_div (js_sub currentY (off_y (dragOffset st))) (previewHeight ai)
            in st\<lparr>cropBox := moveCropBox (cropBox st) deltaX deltaY,
                  dragOffset := \<lparr>off_x = currentX, off_y = currentY\<rparr>\<rparr>)"

definition handleMouseUp :: "crop_state \<Rightarrow> crop_state" where
  "handleMouseUp st = st\<lparr>isDragging := False\<rparr>"

fun crop_event :: "aspect_info \<Rightarrow> crop_state \<Rightarrow> mouse_event \<Rightarrow> crop_state" where
  "crop_event ai st (MouseDown c cx cy) = handleMouseDown st c cx cy"
| "crop_event ai st (MouseMove c cx cy) = handleMouseMove ai st c cx cy"
| "crop_event ai st MouseUp = handleMouseUp st"

definition crop_events :: "aspect_info \<Rightarrow> crop_state \<Rightarrow> mouse_event list \<Rightarrow> crop_state" where
  "crop_events ai st evs = foldl (crop_event ai) st evs"

text \<open>The body \<open>handleSubmit\<close> posts to the job's \<open>position\<close> endpoint.\<close>

record position_request =
  pr_filename :: string
  pr_crop_box :: CropBox

definition handleSubmit :: "crop_result \<Rightarrow> crop_state \<Rightarrow> position_request" where
  "handleSubmit result st = \<lparr>pr_filename = cr_filename result, pr_crop_box = cropBox st\<rparr>"

text \<open>The CropBox invariants of the data model, read with JavaScript's comparisons.\<close>

definition CropBox_inv :: "CropBox \<Rightarrow> bool" where
  "CropBox_inv b \<longleftrightarrow>
     js_le (Num 0) (crop_x b) \<and> js_le (Num 0) (crop_y b) \<and>
     js_le (js_add (crop_x b) (crop_width b)) (Num 1) \<and>
     js_le (js_add (crop_y b) (crop_height b)) (Num 1) \<and>
     js_gt (crop_width b) (Num 0) \<and> js_gt (crop_height b) (Num 0)"

text \<open>Finite components, as every box the handlers build from finite input has.\<close>

fun is_Num :: "jsnum \<Rightarrow> bool" where
  "is_Num (Num _) = True"
| "is_Num _ = False"

definition finite_box :: "CropBox \<Rightarrow> bool" where
  "finite_box b \<longleftrightarrow>
     is_Num (crop_x b) \<and> is_Num (crop_y b) \<and> is_Num (crop_width b) \<and> is_Num (crop_height b)"

definition drag_ok :: "crop_state \<Rightarrow> bool" where
  "drag_ok st \<longleftrightarrow>
     finite_box (cropBox st) \<and> CropBox_inv (cropBox st) \<and>
     is_Num (off_x (dragOffset st)) \<and> is_Num (off_y (dragOffset st))"

text \<open>Sample inputs: a square image, and a result whose reported width is zero.\<close>

definition d_png :: crop_result where
  "d_png = \<lparr>cr_filename = ''d.png'', cr_aspect_info = \<lparr>ai_width = 800, ai_height = 800\<rparr>\<rparr>"

definition flat_png :: crop_result where
  "flat_png = \<lparr>cr_filename = ''flat.png'', cr_aspect_info = \<lparr>ai_width = 0, ai_height = 800\<rparr>\<rparr>"

definition container :: rect where
  "container = \<lparr>rect_left = 10, rect_top = 20\<rparr>"


section \<open>JSON values\<close>

text \<open>
  A parsed response body. An object is the list of its members; \<open>get_prop\<close> reads a
  member as the property access \<open>data.k\<close> does, \<open>None\<close> standing for
  \<open>undefined\<close>. For the field names read by the modals no primitive value and no array
  has a property of that name. Reading a property of \<open>null\<close> throws, which the callers
  below treat as their \<open>catch\<close> branch.
\<close>

datatype json =
    JNull
  | JBool bool
  | JNum rat
  | JStr string
  | JArr "json list"
  | JObj "(string \<times> json) list"

fun get_prop :: "json \<Rightarrow> string \<Rightarrow> json option" where
  "get_prop (JObj kvs) k = map_of kvs k"
| "get_prop _ k = None"

text \<open>Truthiness, as \<open>!v\<close>, \<open>v || d\<close> and \<open>v ? a : b\<close> test it.\<close>

fun truthy :: "json \<Rightarrow> bool" where
  "truthy JNull = False"
| "truthy (JBool b) = b"
| "truthy (JNum n) = (n \<noteq> 0)"
| "truthy (JStr s) = (s \<noteq> [])"
| "truthy (JArr _) = True"
| "truthy (JObj _) = True"

fun truthy_opt :: "json option \<Rightarrow> bool" where
  "truthy_opt None = False"
| "truthy_opt (Some v) = truthy v"

text \<open>
  The outcome of \<open>await fetch(...)\<close> followed by \<open>await response.json()\<close>: the parsed
  body, or the message of the error thrown (no connection, a body that is not JSON).
\<close>

datatype fetch_outcome = Resolved json | Rejected string


section \<open>The duplicate modal\<close>

text \<open>
  \<open>DuplicateModal\<close> (components/modals/DuplicateModal.jsx). Of the paused file's result
  only the filename reaches the server; the comparison data is rendered and nothing else.
\<close>

record duplicate_result =
  dup_filename :: string

record duplicate_action_request =
  da_filename :: string
  da_action :: string

datatype dup_effect =
    Post duplicate_action_request
  | OnAction string
  | ConsoleError

text \<open>
  \<open>handleAction\<close> posts the request, then calls \<open>onAction\<close> unless \<open>data.error\<close>
  is truthy; a failed fetch, a body that is not JSON, and the body \<open>null\<close> end in the
  \<open>catch\<close> branch.
\<close>

fun handleAction :: "duplicate_result \<Rightarrow> string \<Rightarrow> fetch_outcome \<Rightarrow> dup_effect list" where
  "handleAction result action (Rejected msg) =
     [Post \<lparr>da_filename = dup_filename result, da_action = action\<rparr>, ConsoleError]"
| "handleAction result action (Resolved JNull) =
     [Post \<lparr>da_filename = dup_filename result, da_action = action\<rparr>, ConsoleError]"
| "handleAction result action (Resolved data) =
     Post \<lparr>da_filename = dup_filename result, da_action = action\<rparr> #
     (if \<not> truthy_opt (get_prop data ''error'') then [OnAction action] else [])"

text \<open>
  The places a click can land. The modal body stops propagation, so a click on it or on
  one of its buttons never reaches the overlay's handler.
\<close>

datatype click_target = SkipButton | OverwriteButton | ImportButton | ModalBody | Overlay

fun DuplicateModal_click ::
  "duplicate_result \<Rightarrow> click_target \<Rightarrow> fetch_outcome \<Rightarrow> dup_effect list" where
  "DuplicateModal_click result SkipButton out = handleAction result ''skip'' out"
| "DuplicateModal_click result OverwriteButton out = handleAction result ''overwrite'' out"
| "DuplicateModal_click result ImportButton out = handleAction result ''import_anyway'' out"
| "DuplicateModal_click result ModalBody out = []"
| "DuplicateModal_click result Overlay out = [OnAction ''skip'']"

definition DuplicateModal_clicks ::
  "duplicate_result \<Rightarrow> (click_target \<times> fetch_outcome) list \<Rightarrow> dup_effect list" where
  "DuplicateModal_clicks result clicks =
     concat (map (\<lambda>(t, out). DuplicateModal_click result t out) clicks)"

fun posted :: "dup_effect \<Rightarrow> duplicate_action_request option" where
  "posted (Post r) = Some r"
| "posted _ = None"

definition requests_of :: "dup_effect list \<Rightarrow> duplicate_action_request list" where
  "requests_of effs = List.map_filter posted effs"

definition duplicate_actions :: "string set" where
  "duplicate_actions = {''skip'', ''overwrite'', ''import_anyway''}"

definition b_jpg :: duplicate_result where
  "b_jpg = \<lparr>dup_filename = ''b.jpg''\<rparr>"

section \<open>The upload progress modal\<close>

text \<open>
  \<open>UploadProgressModal\<close> (components/modals/UploadProgressModal.jsx). The modelled state
  is the two \<open>useState\<close> cells, the \<open>jobId\<close> prop, and the bookkeeping of the effect.
  React runs the effect when the modal is mounted and again whenever one of its
  dependencies \<open>jobId\<close>, \<open>onComplete\<close>, \<open>onError\<close> changes, each time after the cleanup of
  the run before. The runs are numbered. The state records the number of the current
  run, the interval timer of the current run (its delay while it is set, \<open>None\<close> once
  cleared or when none was created), for each fetch awaiting its response the run that
  started it, the requests sent and the callbacks invoked so far.
\<close>

datatype poll_request = GetStatus "string option"

datatype callback = OnError "json option" | OnComplete json

record poll_state =
  ps_status :: json
  ps_error :: json
  ps_jobId :: "string option"
  ps_mounted :: bool
  ps_run :: nat
  ps_interval :: "nat option"
  ps_in_flight :: "nat list"
  ps_requests :: "poll_request list"
  ps_callbacks :: "callback list"

text \<open>\<open>!jobId\<close> for a prop that is a string, \<open>null\<close> or \<open>undefined\<close>.\<close>

fun no_job :: "string option \<Rightarrow> bool" where
  "no_job None = True"
| "no_job (Some j) = (j = [])"

text \<open>Mounting: the initial state cells, and the effect, which returns early without a job.\<close>

definition UploadProgressModal_mount :: "string option \<Rightarrow> poll_state" where
  "UploadProgressModal_mount jobId =
     \<lparr>ps_status = JNull, ps_error = JNull,
      ps_jobId = jobId, ps_mounted = True, ps_run = 0,
      ps_interval = (if no_job jobId then None else Some 300),
      ps_in_flight = [], ps_requests = [], ps_callbacks = []\<rparr>"

text \<open>The value of \<open>v?.[0]\<close>.\<close>

fun first_element :: "json option \<Rightarrow> json option" where
  "first_element None = None"
| "first_element (Some JNull) = None"
| "first_element (Some (JArr [])) = None"
| "first_element (Some (JArr (e # es))) = Some e"
| "first_element (Some (JStr [])) = None"
| "first_element (Some (JStr (c # cs))) = Some (JStr [c])"
| "first_element (Some (JObj kvs)) = map_of kvs ''0''"
| "first_element (Some (JBool b)) = None"
| "first_element (Some (JNum n)) = None"

text \<open>The value of \<open>v?.length\<close> (for a string, of its ASCII text).\<close>

fun length_of :: "json option \<Rightarrow> json option" where
  "length_of None = None"
| "length_of (Some JNull) = None"
| "length_of (Some (JArr es)) = Some (JNum (of_nat (length es)))"
| "length_of (Some (JStr cs)) = Some (JNum (of_nat (length cs)))"
| "length_of (Some (JObj kvs)) = map_of kvs ''length''"
| "length_of (Some (JBool b)) = None"
| "length_of (Some (JNum n)) = None"

text \<open>The value of \<open>v || d\<close>.\<close>

fun or_else :: "json option \<Rightarrow> json \<Rightarrow> json" where
  "or_else None d = d"
| "or_else (Some v) d = (if truthy v then v else d)"

text \<open>
  The message of the \<open>TypeError\<close> thrown by \<open>data.status\<close> when the body is \<open>null\<close>;
  its wording depends on the engine.
\<close>

definition null_read_message :: string where
  "null_read_message = ''Cannot read properties of null''"

text \<open>
  The body of the interval callback after its two \<open>await\<close>s: the \<open>try\<close> block on a
  parsed body, the \<open>catch\<close> block otherwise. \<open>clearInterval(pollInterval)\<close> is
  written here for a callback of the current run, whose \<open>pollInterval\<close> is the timer in
  the state.
\<close>

fun handle_response :: "poll_state \<Rightarrow> fetch_outcome \<Rightarrow> poll_state" where
  "handle_response st (Rejected msg) = st\<lparr>ps_error := JStr msg, ps_interval := None\<rparr>"
| "handle_response st (Resolved JNull) =
     st\<lparr>ps_status := JNull, ps_error := JStr null_read_message, ps_interval := None\<rparr>"
| "handle_response st (Resolved data) =
     (if get_prop data ''status'' = Some (JStr ''error'') then
        st\<lparr>ps_status := data,
           ps_error := or_else (first_element (get_prop data ''errors'')) (JStr ''Upload failed''),
           ps_interval := None,
           ps_callbacks := ps_callbacks st @ [OnError (get_prop data ''errors'')]\<rparr>
      else if get_prop data ''status'' = Some (JStr ''complete'') then
        st\<lparr>ps_status := data,
           ps_interval := None,
           ps_callbacks := ps_callbacks st @ [OnComplete data]\<rparr>
      else st\<lparr>ps_status := data\<rparr>)"

text \<open>
  What can happen to the modal. The interval timer fires and its callback starts a fetch.
  A fetch started by some run settles. A dependency of the effect changes, so that React
  runs the cleanup and then the effect again, with the \<open>jobId\<close> the props now hold (the
  same as before when only a callback prop has changed). The modal is unmounted, and the
  cleanup runs for the last time. A cleared timer does not fire, only a fetch that was
  started can settle, and an unmounted modal gets no new props.
\<close>

datatype poll_event =
    Tick
  | Settled nat fetch_outcome
  | Rerun "string option"
  | Unmount

text \<open>
  A callback started by an earlier run holds that run's \<open>pollInterval\<close>, which the cleanup
  has cleared already: its \<open>clearInterval\<close> leaves the timer of the current run alone.
\<close>

fun poll_step :: "poll_state \<Rightarrow> poll_event \<Rightarrow> poll_state" where
  "poll_step st Tick =
     (case ps_interval st of
        None \<Rightarrow> st
      | Some delay \<Rightarrow>
          st\<lparr>ps_requests := ps_requests st @ [GetStatus (ps_jobId st)],
             ps_in_flight := ps_run st # ps_in_flight st\<rparr>)"
| "poll_step st (Settled r out) =
     (if r \<notin> set (ps_in_flight st) then st
      else if r = ps_run st
      then handle_response (st\<lparr>ps_in_flight := remove1 r (ps_in_flight st)\<rparr>) out
      else (handle_response (st\<lparr>ps_in_flight := remove1 r (ps_in_flight st)\<rparr>) out)
             \<lparr>ps_interval := ps_interval st\<rparr>)"
| "poll_step st (Rerun jobId) =
     (if \<not> ps_mounted st then st
      else st\<lparr>ps_jobId := jobId, ps_run := Suc (ps_run st),
              ps_interval := (if no_job jobId then None else Some 300)\<rparr>)"
| "poll_step st Unmount = st\<lparr>ps_mounted := False, ps_interval := None\<rparr>"

definition poll_run :: "poll_state \<Rightarrow> poll_event list \<Rightarrow> poll_state" where
  "poll_run st evs = foldl poll_step st evs"

text \<open>What the modal renders.\<close>

record progress_view =
  pv_bar_width :: "json option"
  pv_percent :: "json option"
  pv_count :: json
  pv_total :: "json option"
  pv_step :: "json option"

datatype view = NoView | ErrorView json | ProgressView progress_view

definition render :: "poll_state \<Rightarrow> view" where
  "render st =
     (if \<not> truthy (ps_status st) then NoView
      else if truthy (ps_error st) then ErrorView (ps_error st)
      else ProgressView
        \<lparr>pv_bar_width = get_prop (ps_status st) ''progress'',
         pv_percent = get_prop (ps_status st) ''progress'',
         pv_count = or_else (length_of (get_prop (ps_status st) ''results'')) (JNum 0),
         pv_total = get_prop (ps_status st) ''total_files'',
         pv_step = get_prop (ps_status st) ''current_step''\<rparr>)"

text \<open>A snapshot is terminal when its status is \<open>complete\<close> or \<open>error\<close>.\<close>

definition terminal_snapshot :: "json \<Rightarrow> bool" where
  "terminal_snapshot data \<longleftrightarrow>
     get_prop data ''status'' = Some (JStr ''complete'') \<or>
     get_prop data ''status'' = Some (JStr ''error'')"

text \<open>
  A history in which every fetch succeeds and reports a non-terminal status consists of
  these events: the timer fires, or a response with a snapshot that is not terminal
  arrives.
\<close>

fun quiet_event :: "poll_event \<Rightarrow> bool" where
  "quiet_event Tick = True"
| "quiet_event (Settled r (Resolved data)) = (data \<noteq> JNull \<and> \<not> terminal_snapshot data)"
| "quiet_event (Settled r (Rejected msg)) = False"
| "quiet_event (Rerun jobId) = False"
| "quiet_event Unmount = False"

text \<open>Every event but a new run of the effect.\<close>

fun no_rerun :: "poll_event \<Rightarrow> bool" where
  "no_rerun (Rerun jobId) = False"
| "no_rerun e = True"


text \<open>
  What the modal does with a snapshot, as far as it reads the snapshot itself: the error
  it shows, whether it goes on polling, which callback it invokes, and what it renders.
  The whole object that it stores and hands to \<open>onComplete\<close> unread is left out.
\<close>

fun callback_kind :: "callback \<Rightarrow> callback" where
  "callback_kind (OnError e) = OnError e"
| "callback_kind (OnComplete data) = OnComplete JNull"

definition observation ::
  "poll_state \<Rightarrow> json \<times> nat option \<times> poll_request list \<times> callback list \<times> view" where
  "observation st =
     (ps_error st, ps_interval st, ps_requests st, map callback_kind (ps_callbacks st), render st)"

text \<open>The six field names of a status snapshot.\<close>

definition snapshot_fields :: "string list" where
  "snapshot_fields =
     [''status'', ''progress'', ''results'', ''total_files'', ''current_step'', ''errors'']"

text \<open>Sample snapshots.\<close>

definition processing_snapshot :: json where
  "processing_snapshot =
     JObj [(''status'', JStr ''processing''), (''progress'', JNum 33),
           (''results'', JArr [JObj [(''filename'', JStr ''a.jpg''), (''status'', JStr ''accepted'')]]),
           (''total_files'', JNum 3), (''current_step'', JStr ''Processing b.jpg''),
           (''errors'', JArr [])]"

definition complete_snapshot :: json where
  "complete_snapshot =
     JObj [(''status'', JStr ''complete''), (''progress'', JNum 100),
           (''results'', JArr []), (''total_files'', JNum 3),
           (''current_step'', JStr ''Done''), (''errors'', JArr [])]"


section \<open>The ingestion pipeline\<close>

text \<open>
  Modelled from the spec: the server side (job manager, file processor, status reporter)
  is not among the sources, which hold the front end only. The data model of section 3
  and the operations of sections 4.1, 4.2 and 4.5 of the specification are written down
  here as the specification words them.
\<close>

text \<open>Modelled from the spec: the status of an UploadJob (section 3).\<close>

datatype job_status = job_pending | job_processing | job_complete | job_error

text \<open>Modelled from the spec: the status of a FileResult (section 3).\<close>

datatype file_status = accepted | duplicate_pending | crop_pending | skipped | file_error

text \<open>Modelled from the spec: the error taxonomy (section 7) and \<open>NoFilesProvided\<close>.\<close>

datatype pipeline_error =
  NoFilesProvided | NotFound | StateMismatch | InvalidCropBox | InvalidImage | StorageFailure

text \<open>Modelled from the spec: the three duplicate actions (section 4.1).\<close>

datatype duplicate_action = skip | overwrite | import_anyway

text \<open>
  Modelled from the spec: a FileResult (section 3). The thumbnail, the aspect information
  and the comparison payload play no part in the job's bookkeeping and are left out.
\<close>

record FileResult =
  fr_filename :: string
  fr_status :: file_status
  fr_error :: "pipeline_error option"

text \<open>
  Modelled from the spec: one submitted file. Its bytes are represented by what the
  pipeline's collaborators find out about them: the decoded dimensions (none for
  unreadable content), whether the duplicate resolver finds a library image for it, and
  whether transform and commit succeed.
\<close>

record upload_file =
  uf_filename :: string
  uf_dims :: "(nat \<times> nat) option"
  uf_match :: bool
  uf_storage_ok :: bool

text \<open>
  Modelled from the spec: an UploadJob (section 3), with the two things its background
  pipeline keeps: the files not yet started and the file that is paused, if any.
\<close>

record UploadJob =
  uj_id :: string
  uj_created_at :: nat
  uj_status :: job_status
  uj_total_files :: nat
  uj_processed_count :: nat
  uj_results :: "FileResult list"
  uj_current_step :: string
  uj_errors :: "string list"
  uj_queue :: "upload_file list"
  uj_paused :: "upload_file option"

text \<open>Modelled from the spec: \<open>submit\<close> (section 4.1).\<close>

definition submit :: "string \<Rightarrow> nat \<Rightarrow> upload_file list \<Rightarrow> pipeline_error + UploadJob" where
  "submit jid now files =
     (if files = [] then Inl NoFilesProvided
      else Inr \<lparr>uj_id = jid, uj_created_at = now, uj_status = job_pending,
                uj_total_files = length files, uj_processed_count = 0, uj_results = [],
                uj_current_step = [], uj_errors = [], uj_queue = files, uj_paused = None\<rparr>)"

text \<open>
  Modelled from the spec: steps 7 and 8 of the file state machine (Transforming,
  Committing), and step 9 for their failure.
\<close>

definition transform_and_commit :: "upload_file \<Rightarrow> file_status \<times> pipeline_error option" where
  "transform_and_commit f =
     (if uf_storage_ok f then (accepted, None) else (file_error, Some StorageFailure))"

text \<open>
  Modelled from the spec: the one output canvas the pipeline is configured with, target
  width by target height; the scenario of section 8 gives it as 3840 by 2160.
\<close>

definition target_canvas :: "nat \<times> nat" where
  "target_canvas = (3840, 2160)"

text \<open>
  Modelled from the spec: the target aspect, the aspect of the output canvas to which
  an image is cropped (sections 4.2 and 4.4; 16:9 for the canvas of section 8).
\<close>

definition target_aspect :: rat where
  "target_aspect = of_nat (fst target_canvas) / of_nat (snd target_canvas)"

text \<open>
  Modelled from the spec: step 5 (AspectCheck), with the target aspect and the
  configured tolerance \<open>eps\<close>.
\<close>

definition aspect_check :: "rat \<Rightarrow> upload_file \<Rightarrow> file_status \<times> pipeline_error option" where
  "aspect_check eps f =
     (case uf_dims f of
        None \<Rightarrow> (file_error, Some InvalidImage)
      | Some (w, h) \<Rightarrow>
          if \<bar>of_nat w / of_nat h - target_aspect\<bar> \<le> eps then transform_and_commit f
          else (crop_pending, None))"

text \<open>
  Modelled from the spec: steps 1 to 3 (Validating, Hashing, DuplicateCheck) and on to
  step 5 when no duplicate is found. An image without extent counts as unreadable.
\<close>

definition first_pass :: "rat \<Rightarrow> upload_file \<Rightarrow> file_status \<times> pipeline_error option" where
  "first_pass eps f =
     (case uf_dims f of
        None \<Rightarrow> (file_error, Some InvalidImage)
      | Some (w, h) \<Rightarrow>
          if w = 0 \<or> h = 0 then (file_error, Some InvalidImage)
          else if uf_match f then (duplicate_pending, None)
          else aspect_check eps f)"

text \<open>
  Modelled from the spec: recording where a file stands, after the results \<open>rs\<close> of the
  files before it. A paused file stays the job's paused file; any other outcome is final
  and counts as processed (the scenario of section 8 ends with progress 100 for one
  skipped and two accepted files). The specification does not say when the job's
  \<open>errors\<close> are extended; the model leaves them as they are.
\<close>

definition settle ::
  "UploadJob \<Rightarrow> FileResult list \<Rightarrow> upload_file \<Rightarrow> file_status \<times> pipeline_error option \<Rightarrow> UploadJob" where
  "settle job rs f outcome =
     (let pausing = (fst outcome = duplicate_pending \<or> fst outcome = crop_pending) in
      job\<lparr>uj_results :=
            rs @ [\<lparr>fr_filename = uf_filename f, fr_status = fst outcome, fr_error = snd outcome\<rparr>],
          uj_paused := (if pausing then Some f else None),
          uj_processed_count :=
            (if pausing then uj_processed_count job else Suc (uj_processed_count job)),
          uj_current_step := ''Processing '' @ uf_filename f\<rparr>)"

text \<open>Modelled from the spec: the filenames a job knows, for \<open>NotFound\<close>.\<close>

definition job_filenames :: "UploadJob \<Rightarrow> string list" where
  "job_filenames job = map fr_filename (uj_results job) @ map uf_filename (uj_queue job)"

text \<open>
  Modelled from the spec: what can happen to a job. \<open>Advance\<close> is one step of the job's
  background pipeline; the other two are the resolution calls.
\<close>

datatype job_event =
    Advance
  | ResolveDuplicate string duplicate_action
  | ResolvePosition string CropBox

text \<open>
  Modelled from the spec: one step of the background pipeline (sections 4.1 and 4.2). A
  pending job starts processing; a processing job waits while a file is paused,
  otherwise takes the next file in submission order, and when none is left becomes
  \<open>error\<close> if every file errored and \<open>complete\<close> otherwise; a terminal job is immutable.
\<close>

definition advance :: "rat \<Rightarrow> UploadJob \<Rightarrow> UploadJob" where
  "advance eps job =
     (case uj_status job of
        job_pending \<Rightarrow> job\<lparr>uj_status := job_processing\<rparr>
      | job_processing \<Rightarrow>
          (case uj_paused job of
             Some f \<Rightarrow> job
           | None \<Rightarrow>
               (case uj_queue job of
                  f # q \<Rightarrow> settle (job\<lparr>uj_queue := q\<rparr>) (uj_results job) f (first_pass eps f)
                | [] \<Rightarrow>
                    job\<lparr>uj_status :=
                      (if list_all (\<lambda>r. fr_status r = file_error) (uj_results job)
                       then job_error else job_complete)\<rparr>))
      | job_complete \<Rightarrow> job
      | job_error \<Rightarrow> job)"

text \<open>
  Modelled from the spec: the file a resolution call may unblock: the paused file, when
  it has the given name and its result has the given pending status.
\<close>

definition awaiting :: "UploadJob \<Rightarrow> string \<Rightarrow> file_status \<Rightarrow> upload_file option" where
  "awaiting job name pending =
     (case uj_paused job of
        None \<Rightarrow> None
      | Some f \<Rightarrow>
          if uf_filename f = name \<and> uj_results job \<noteq> [] \<and>
             fr_status (last (uj_results job)) = pending
          then Some f else None)"

text \<open>Modelled from the spec: \<open>resolveDuplicate\<close> (section 4.1; step 4 of section 4.2).\<close>

definition resolveDuplicate ::
  "rat \<Rightarrow> UploadJob \<Rightarrow> string \<Rightarrow> duplicate_action \<Rightarrow> pipeline_error + UploadJob" where
  "resolveDuplicate eps job name action =
     (if name \<notin> set (job_filenames job) then Inl NotFound
      else case awaiting job name duplicate_pending of
        None \<Rightarrow> Inl StateMismatch
      | Some f \<Rightarrow>
          Inr (settle job (butlast (uj_results job)) f
                (case action of
                   skip \<Rightarrow> (skipped, None)
                 | overwrite \<Rightarrow> aspect_check eps f
                 | import_anyway \<Rightarrow> aspect_check eps f)))"

text \<open>Modelled from the spec: \<open>resolvePosition\<close> (section 4.1; step 6 of section 4.2).\<close>

definition resolvePosition ::
  "UploadJob \<Rightarrow> string \<Rightarrow> CropBox \<Rightarrow> pipeline_error + UploadJob" where
  "resolvePosition job name box =
     (if name \<notin> set (job_filenames job) then Inl NotFound
      else case awaiting job name crop_pending of
        None \<Rightarrow> Inl StateMismatch
      | Some f \<Rightarrow>
          if \<not> CropBox_inv box then Inl InvalidCropBox
          else Inr (settle job (butlast (uj_results job)) f (transform_and_commit f)))"

text \<open>Modelled from the spec: the effect of one event on a job.\<close>

fun job_step :: "rat \<Rightarrow> UploadJob \<Rightarrow> job_event \<Rightarrow> pipeline_error + UploadJob" where
  "job_step eps job Advance = Inr (advance eps job)"
| "job_step eps job (ResolveDuplicate name action) = resolveDuplicate eps job name action"
| "job_step eps job (ResolvePosition name box) = resolvePosition job name box"

text \<open>
  Modelled from the spec: a job's history. A resolution call that fails leaves the job as
  it was.
\<close>

definition job_apply :: "rat \<Rightarrow> UploadJob \<Rightarrow> job_event \<Rightarrow> UploadJob" where
  "job_apply eps job ev = (case job_step eps job ev of Inl e \<Rightarrow> job | Inr job' \<Rightarrow> job')"

text \<open>Modelled from the spec: the job after a sequence of events.\<close>

definition job_run :: "rat \<Rightarrow> UploadJob \<Rightarrow> job_event list \<Rightarrow> UploadJob" where
  "job_run eps job evs = foldl (job_apply eps) job evs"

text \<open>Modelled from the spec: the terminal statuses.\<close>

definition job_terminal :: "UploadJob \<Rightarrow> bool" where
  "job_terminal job \<longleftrightarrow> uj_status job = job_complete \<or> uj_status job = job_error"

text \<open>Modelled from the spec: the names of the job statuses in a snapshot.\<close>

fun job_status_name :: "job_status \<Rightarrow> string" where
  "job_status_name job_pending = ''pending''"
| "job_status_name job_processing = ''processing''"
| "job_status_name job_complete = ''complete''"
| "job_status_name job_error = ''error''"

text \<open>Modelled from the spec: the names of the file statuses in a snapshot.\<close>

fun file_status_name :: "file_status \<Rightarrow> string" where
  "file_status_name accepted = ''accepted''"
| "file_status_name duplicate_pending = ''duplicate_pending''"
| "file_status_name crop_pending = ''crop_pending''"
| "file_status_name skipped = ''skipped''"
| "file_status_name file_error = ''error''"

text \<open>Modelled from the spec: a FileResult as a member of \<open>results[]\<close>.\<close>

definition FileResult_json :: "FileResult \<Rightarrow> json" where
  "FileResult_json r =
     JObj [(''filename'', JStr (fr_filename r)), (''status'', JStr (file_status_name (fr_status r)))]"

text \<open>
  Modelled from the spec: the progress of a job,
  \<open>floor(processed_count / total_files * 100)\<close> (section 4.5).
\<close>

definition progress :: "UploadJob \<Rightarrow> int" where
  "progress job =
     \<lfloor>(of_nat (uj_processed_count job) :: rat) / of_nat (uj_total_files job) * 100\<rfloor>"

text \<open>Modelled from the spec: the status reporter's snapshot of a job (section 4.5).\<close>

definition status_snapshot :: "UploadJob \<Rightarrow> json" where
  "status_snapshot job =
     JObj [(''status'', JStr (job_status_name (uj_status job))),
           (''progress'', JNum (of_int (progress job))),
           (''results'', JArr (map FileResult_json (uj_results job))),
           (''total_files'', JNum (of_nat (uj_total_files job))),
           (''current_step'', JStr (uj_current_step job)),
           (''errors'', JArr (map JStr (uj_errors job)))]"

text \<open>
  Modelled from the spec: the invariants of section 3, in the form in which they hold at
  every step of a job for a submitted batch. Results and queue together are the batch in
  submission order, the paused file is the one the last result belongs to, only a
  processing job has a paused file, and a terminal job has no file left.
\<close>

definition pipeline_inv :: "upload_file list \<Rightarrow> UploadJob \<Rightarrow> bool" where
  "pipeline_inv files job \<longleftrightarrow>
     uj_total_files job = length files \<and>
     map fr_filename (uj_results job) @ map uf_filename (uj_queue job) = map uf_filename files \<and>
     (case uj_paused job of
        None \<Rightarrow> True
      | Some f \<Rightarrow> uj_status job = job_processing \<and> uj_results job \<noteq> [] \<and>
                  fr_filename (last (uj_results job)) = uf_filename f) \<and>
     (job_terminal job \<longrightarrow> uj_queue job = [])"

text \<open>
  Modelled from the spec: the scenario of section 8, its three files, the events of its
  history, and the job that \<open>submit\<close> creates for it.
\<close>

definition scenario_files :: "upload_file list" where
  "scenario_files =
     [\<lparr>uf_filename = ''a.jpg'', uf_dims = Some (1920, 1080), uf_match = False, uf_storage_ok = True\<rparr>,
      \<lparr>uf_filename = ''b.jpg'', uf_dims = Some (1920, 1080), uf_match = True, uf_storage_ok = True\<rparr>,
      \<lparr>uf_filename = ''d.png'', uf_dims = Some (800, 800), uf_match = False, uf_storage_ok = True\<rparr>]"

text \<open>Modelled from the spec: the history of the scenario.\<close>

definition scenario_events :: "job_event list" where
  "scenario_events =
     [Advance, Advance, Advance, ResolveDuplicate ''b.jpg'' skip, Advance,
      ResolvePosition ''d.png''
        \<lparr>crop_x = Num 0, crop_y = Num (1 / 10), crop_width = Num 1, crop_height = Num (8 / 10)\<rparr>,
      Advance]"

text \<open>Modelled from the spec: the job of the scenario when it is submitted.\<close>

definition scenario_job :: UploadJob where
  "scenario_job =
     \<lparr>uj_id = ''job-1'', uj_created_at = 0, uj_status = job_pending,
      uj_total_files = 3, uj_processed_count = 0, uj_results = [],
      uj_current_step = [], uj_errors = [], uj_queue = scenario_files, uj_paused = None\<rparr>"

text \<open>A modal just mounted for a job, and a history of it without a terminal snapshot.\<close>

definition fresh :: poll_state where
  "fresh = UploadProgressModal_mount (Some ''job-1'')"

definition quiet_events :: "poll_event list" where
  "quiet_events = [Tick, Settled 0 (Resolved processing_snapshot), Tick]"

text \<open>Modelled from the spec: the scenario's job once its first file is accepted.\<close>

definition after_first_file :: UploadJob where
  "after_first_file = job_run (1 / 20) scenario_job [Advance, Advance]"

text \<open>The aspect information of an image wider than it is high.\<close>

definition wide_info :: aspect_info where
  "wide_info = \<lparr>ai_width = 1920, ai_height = 800\<rparr>"


section \<open>Properties of the crop positioning modal\<close>

lemma js_le_Num [simp]: "js_le (Num a) (Num b) = (a \<le> b)"
  by auto

lemma js_gt_Num [simp]: "js_gt (Num a) (Num b) = (b < a)"
  by (simp add: js_gt_def)

lemma js_sub_Num [simp]: "js_sub (Num a) (Num b) = Num (a - b)"
  by (simp add: js_sub_def)

lemma Math_max_Num [simp]: "Math_max (Num a) (Num b) = Num (max a b)"
  by (simp add: max_def)

lemma Math_min_Num [simp]: "Math_min (Num a) (Num b) = Num (min a b)"
  by (simp add: min_def)

lemma is_Num_iff: "is_Num a \<longleftrightarrow> (\<exists>r. a = Num r)"
  by (cases a) simp_all

lemma js_gt_pos_cases: "js_gt p (Num 0) \<Longrightarrow> p = PosInf \<or> (\<exists>r. p = Num r \<and> 0 < r)"
  by (cases p) (auto simp: js_gt_def)

text \<open>Dividing a finite pixel distance by a positive preview dimension is finite.\<close>

lemma js_div_Num_pos: "js_gt p (Num 0) \<Longrightarrow> \<exists>r. js_div (Num d) p = Num r"
  by (auto dest!: js_gt_pos_cases)

text \<open>
  One clamped move keeps a finite box inside the unit square: the upper clamp bound
  \<open>1 - width\<close> is not negative because the box was inside before.
\<close>

lemma moveCropBox_inv:
  assumes "finite_box b" "CropBox_inv b"
  shows "finite_box (moveCropBox b (Num dx) (Num dy)) \<and>
         CropBox_inv (moveCropBox b (Num dx) (Num dy))"
proof -
  from assms(1) obtain x y w h where
    b: "crop_x b = Num x" "crop_y b = Num y" "crop_width b = Num w" "crop_height b = Num h"
    unfolding finite_box_def is_Num_iff by blast
  from assms(2) b have o: "0 \<le> x" "0 \<le> y" "x + w \<le> 1" "y + h \<le> 1" "0 < w" "0 < h"
    by (simp_all add: CropBox_inv_def)
  have m: "moveCropBox b (Num dx) (Num dy) =
             b\<lparr>crop_x := Num (max 0 (min (1 - w) (x + dx))),
               crop_y := Num (max 0 (min (1 - h) (y + dy)))\<rparr>"
    by (simp add: moveCropBox_def b)
  have "max 0 (min (1 - w) (x + dx)) + w \<le> 1" "max 0 (min (1 - h) (y + dy)) + h \<le> 1"
    using o by (simp_all add: max_def min_def)
  then show ?thesis
    unfolding m using o by (simp add: finite_box_def CropBox_inv_def b)
qed

lemma init_ok: "drag_ok (CropPositioningModal_init result)"
  by (simp add: drag_ok_def finite_box_def CropBox_inv_def CropPositioningModal_init_def)

lemma handleMouseDown_ok: "drag_ok st \<Longrightarrow> drag_ok (handleMouseDown st c cx cy)"
  by (cases c) (simp_all add: drag_ok_def handleMouseDown_def)

lemma handleMouseUp_ok: "drag_ok st \<Longrightarrow> drag_ok (handleMouseUp st)"
  by (simp add: drag_ok_def handleMouseUp_def)

lemma handleMouseMove_ok:
  assumes pw: "js_gt (previewWidth ai) (Num 0)" and ph: "js_gt (previewHeight ai) (Num 0)"
    and ok: "drag_ok st"
  shows "drag_ok (handleMouseMove ai st c cx cy)"
proof (cases c)
  case None
  then show ?thesis using ok by (simp add: handleMouseMove_def)
next
  case (Some r)
  show ?thesis
  proof (cases "isDragging st")
    case False
    then show ?thesis using ok Some by (simp add: handleMouseMove_def)
  next
    case True
    from ok obtain ox oy where
      off: "off_x (dragOffset st) = Num ox" "off_y (dragOffset st) = Num oy"
      unfolding drag_ok_def is_Num_iff by blast
    obtain dx where dx: "js_div (Num (cx - rect_left r - ox)) (previewWidth ai) = Num dx"
      using js_div_Num_pos [OF pw] by blast
    obtain dy where dy: "js_div (Num (cy - rect_top r - oy)) (previewHeight ai) = Num dy"
      using js_div_Num_pos [OF ph] by blast
    have "handleMouseMove ai st c cx cy =
        st\<lparr>cropBox := moveCropBox (cropBox st) (Num dx) (Num dy),
           dragOffset := \<lparr>off_x = Num (cx - rect_left r), off_y = Num (cy - rect_top r)\<rparr>\<rparr>"
      by (simp add: handleMouseMove_def Some True off dx dy Let_def)
    then show ?thesis
      using ok moveCropBox_inv [of "cropBox st" dx dy] by (simp add: drag_ok_def)
  qed
qed

lemma crop_events_ok:
  assumes "js_gt (previewWidth ai) (Num 0)" "js_gt (previewHeight ai) (Num 0)"
  shows "drag_ok st \<Longrightarrow> drag_ok (crop_events ai st evs)"
proof (induction evs arbitrary: st)
  case Nil
  then show ?case by (simp add: crop_events_def)
next
  case (Cons e evs)
  have "drag_ok (crop_event ai st e)"
    using Cons.prems assms
    by (cases e) (simp_all add: handleMouseDown_ok handleMouseMove_ok handleMouseUp_ok)
  from Cons.IH [OF this] show ?case by (simp add: crop_events_def)
qed

lemma preview_d_png:
  "previewWidth (cr_aspect_info d_png) = Num 400"
  "previewHeight (cr_aspect_info d_png) = Num 400"
  by (simp_all add: d_png_def previewWidth_def previewHeight_def displayAspect_def
      maxWidth_def maxHeight_def)

text \<open>
  C1. Starting from the default crop box, after every finite sequence of mouse events
  handled by the modal (mouse-down, drag-move and mouse-up, with any finite coordinates
  and any container rectangle), the crop box that \<open>handleSubmit\<close> puts into the
  position request satisfies the CropBox invariants: \<open>0 \<le> x\<close>, \<open>0 \<le> y\<close>,
  \<open>x + width \<le> 1\<close>, \<open>y + height \<le> 1\<close>, \<open>width > 0\<close> and \<open>height > 0\<close>,
  provided the preview dimensions are positive.
\<close>

theorem crop_box_invariant_after_drags:
  assumes "js_gt (previewWidth (cr_aspect_info result)) (Num 0)"
    and "js_gt (previewHeight (cr_aspect_info result)) (Num 0)"
  shows "CropBox_inv (pr_crop_box (handleSubmit result
           (crop_events (cr_aspect_info result) (CropPositioningModal_init result) evs)))"
  using crop_events_ok [OF assms init_ok, of result evs]
  by (simp add: handleSubmit_def drag_ok_def)

theorem crop_box_invariant_after_drags_witness:
  "js_gt (previewWidth (cr_aspect_info d_png)) (Num 0) \<and>
   js_gt (previewHeight (cr_aspect_info d_png)) (Num 0) \<and>
   CropBox_inv (pr_crop_box (handleSubmit d_png
     (crop_events (cr_aspect_info d_png) (CropPositioningModal_init d_png)
        [MouseDown (Some container) 50 60, MouseMove (Some container) 70 10, MouseUp])))"
proof -
  have pw: "js_gt (previewWidth (cr_aspect_info d_png)) (Num 0)"
    and ph: "js_gt (previewHeight (cr_aspect_info d_png)) (Num 0)"
    by (simp_all add: preview_d_png)
  show ?thesis
    using pw ph crop_box_invariant_after_drags [OF pw ph] by simp
qed

text \<open>
  The drag in the witness moves the box right by 20 of 400 pixels and up by 50 of 400:
  \<open>x\<close> goes from 0.1 to 0.15, and \<open>y\<close> is clamped at 0.
\<close>

lemma crop_drag_example:
  "pr_crop_box (handleSubmit d_png
     (crop_events (cr_aspect_info d_png) (CropPositioningModal_init d_png)
        [MouseDown (Some container) 50 60, MouseMove (Some container) 70 10, MouseUp])) =
   \<lparr>crop_x = Num (3 / 20), crop_y = Num 0, crop_width = Num (8 / 10), crop_height = Num (8 / 10)\<rparr>"
  by (simp add: handleSubmit_def crop_events_def handleMouseDown_def handleMouseMove_def
      handleMouseUp_def moveCropBox_def CropPositioningModal_init_def container_def
      preview_d_png)

text \<open>
  The assumption on the preview dimensions is needed. A result that reports width 0 has
  preview width \<open>400 * 0 = 0\<close>; a vertical drag then divides the horizontal distance
  \<open>0\<close> by \<open>0\<close>, and the box's \<open>x\<close> becomes \<open>NaN\<close>.
\<close>

lemma crop_box_without_preview_width:
  "previewWidth (cr_aspect_info flat_png) = Num 0 \<and>
   crop_x (pr_crop_box (handleSubmit flat_png
     (crop_events (cr_aspect_info flat_png) (CropPositioningModal_init flat_png)
        [MouseDown (Some container) 50 60, MouseMove (Some container) 50 70]))) = NaN"
  by (simp add: handleSubmit_def crop_events_def handleMouseDown_def handleMouseMove_def
      moveCropBox_def CropPositioningModal_init_def container_def flat_png_def
      previewWidth_def previewHeight_def displayAspect_def maxWidth_def maxHeight_def)

text \<open>
  C3. When the modal is mounted for a file that entered the crop-pending state, its crop
  box is initialised to exactly \<open>x = 0.1\<close>, \<open>y = 0.1\<close>, \<open>width = 0.8\<close>,
  \<open>height = 0.8\<close>, whatever the result.
\<close>

theorem crop_box_initial_default:
  "cropBox (CropPositioningModal_init result) =
     \<lparr>crop_x = Num (1 / 10), crop_y = Num (1 / 10),
      crop_width = Num (8 / 10), crop_height = Num (8 / 10)\<rparr>"
  by (simp add: CropPositioningModal_init_def)

lemma moveCropBox_size:
  "crop_width (moveCropBox prev dx dy) = crop_width prev"
  "crop_height (moveCropBox prev dx dy) = crop_height prev"
  by (simp_all add: moveCropBox_def)

lemma crop_event_size:
  "crop_width (cropBox (crop_event ai st e)) = crop_width (cropBox st) \<and>
   crop_height (cropBox (crop_event ai st e)) = crop_height (cropBox st)"
  by (cases e)
    (simp_all add: handleMouseDown_def handleMouseMove_def handleMouseUp_def moveCropBox_size
      Let_def split: option.split)

lemma crop_events_size:
  "crop_width (cropBox (crop_events ai st evs)) = crop_width (cropBox st) \<and>
   crop_height (cropBox (crop_events ai st evs)) = crop_height (cropBox st)"
proof (induction evs arbitrary: st)
  case Nil
  show ?case by (simp add: crop_events_def)
next
  case (Cons e evs)
  from Cons.IH [of "crop_event ai st e"] crop_event_size [of ai st e]
  show ?case by (simp add: crop_events_def)
qed

text \<open>
  C8. A drag-move update leaves the width and height of the crop box as they were: the
  updater, the move handler and hence every sequence of mouse events change at most
  \<open>x\<close> and \<open>y\<close>, and the box in the position request has width 0.8 and height 0.8.
  No assumption on the preview dimensions or the events is needed.
\<close>

theorem crop_box_size_never_changes:
  "crop_width (moveCropBox prev dx dy) = crop_width prev \<and>
   crop_height (moveCropBox prev dx dy) = crop_height prev \<and>
   crop_width (cropBox (handleMouseMove ai st c cx cy)) = crop_width (cropBox st) \<and>
   crop_height (cropBox (handleMouseMove ai st c cx cy)) = crop_height (cropBox st) \<and>
   crop_width (pr_crop_box (handleSubmit result
      (crop_events ai (CropPositioningModal_init result) evs))) = Num (8 / 10) \<and>
   crop_height (pr_crop_box (handleSubmit result
      (crop_events ai (CropPositioningModal_init result) evs))) = Num (8 / 10)"
  using crop_events_size [of ai "CropPositioningModal_init result" evs]
    crop_event_size [of ai st "MouseMove c cx cy"]
  by (simp add: moveCropBox_size handleSubmit_def CropPositioningModal_init_def)

text \<open>
  C10. For a source image of positive width and height the preview dimensions are finite
  and positive, neither exceeds 400, at least one equals 400, and their quotient is the
  source aspect \<open>width / height\<close> exactly.
\<close>

theorem preview_dimensions_fit:
  assumes "0 < ai_width ai" "0 < ai_height ai"
  shows "\<exists>pw ph. previewWidth ai = Num pw \<and> previewHeight ai = Num ph \<and>
           0 < pw \<and> pw \<le> 400 \<and> 0 < ph \<and> ph \<le> 400 \<and> (pw = 400 \<or> ph = 400) \<and>
           pw / ph = ai_width ai / ai_height ai"
proof (cases "1 < ai_width ai / ai_height ai")
  case True
  then have "previewWidth ai = Num 400" "previewHeight ai = Num (400 / (ai_width ai / ai_height ai))"
    using assms by (simp_all add: previewWidth_def previewHeight_def displayAspect_def maxWidth_def maxHeight_def)
  moreover have "400 / (ai_width ai / ai_height ai) \<le> 400" "0 < 400 / (ai_width ai / ai_height ai)"
    using True assms by (simp_all add: field_simps)
  ultimately show ?thesis using assms by simp
next
  case False
  then have "previewWidth ai = Num (400 * (ai_width ai / ai_height ai))" "previewHeight ai = Num 400"
    using assms by (simp_all add: previewWidth_def previewHeight_def displayAspect_def maxWidth_def maxHeight_def)
  moreover have "400 * (ai_width ai / ai_height ai) \<le> 400" "0 < 400 * (ai_width ai / ai_height ai)"
    using False assms by (simp_all add: field_simps)
  ultimately show ?thesis using assms by simp
qed

theorem preview_dimensions_fit_witness:
  "0 < ai_width wide_info \<and> 0 < ai_height wide_info \<and>
   (\<exists>pw ph. previewWidth wide_info = Num pw \<and> previewHeight wide_info = Num ph \<and>
      0 < pw \<and> pw \<le> 400 \<and> 0 < ph \<and> ph \<le> 400 \<and> (pw = 400 \<or> ph = 400) \<and>
      pw / ph = ai_width wide_info / ai_height wide_info)"
proof -
  have w: "0 < ai_width wide_info" and h: "0 < ai_height wide_info"
    by (simp_all add: wide_info_def)
  show ?thesis
    using w h preview_dimensions_fit [OF w h] by simp
qed

lemma preview_wide_example:
  "previewWidth wide_info = Num 400 \<and> previewHeight wide_info = Num (500 / 3)"
  by (simp add: wide_info_def previewWidth_def previewHeight_def displayAspect_def
      maxWidth_def maxHeight_def)


section \<open>Properties of the duplicate modal\<close>

lemma requests_of_handleAction:
  "requests_of (handleAction result a out) = [\<lparr>da_filename = dup_filename result, da_action = a\<rparr>]"
  by (cases "(result, a, out)" rule: handleAction.cases) (simp_all add: requests_of_def)

lemma requests_of_click:
  "set (requests_of (DuplicateModal_click result t out))
     \<subseteq> (\<lambda>a. \<lparr>da_filename = dup_filename result, da_action = a\<rparr>) ` duplicate_actions"
  by (cases t) (simp_all add: requests_of_handleAction duplicate_actions_def, simp_all add: requests_of_def)

lemma requests_of_append: "requests_of (xs @ ys) = requests_of xs @ requests_of ys"
  by (simp add: requests_of_def map_filter_def)

lemma requests_of_clicks:
  "set (requests_of (DuplicateModal_clicks result clicks))
     \<subseteq> (\<lambda>a. \<lparr>da_filename = dup_filename result, da_action = a\<rparr>) ` duplicate_actions"
proof (induction clicks)
  case Nil
  show ?case by (simp add: DuplicateModal_clicks_def requests_of_def)
next
  case (Cons c clicks)
  obtain t out where c: "c = (t, out)" by (cases c)
  have "DuplicateModal_clicks result (c # clicks) =
          DuplicateModal_click result t out @ DuplicateModal_clicks result clicks"
    by (simp add: DuplicateModal_clicks_def c)
  then show ?case
    using Cons.IH requests_of_click [of result t out] by (simp add: requests_of_append)
qed

text \<open>
  C2. Whatever is clicked, in whatever order and with whatever responses, every
  duplicate-action request the modal sends carries the paused file's filename and an
  action from the set of \<open>skip\<close>, \<open>overwrite\<close> and \<open>import_anyway\<close>; each of the
  three is the action of the request one of the buttons sends.
\<close>

theorem duplicate_requests_filename_and_action:
  "(\<forall>r \<in> set (requests_of (DuplicateModal_clicks result clicks)).
      da_filename r = dup_filename result \<and> da_action r \<in> duplicate_actions) \<and>
   (\<forall>a \<in> duplicate_actions. \<exists>t. \<forall>out.
      requests_of (DuplicateModal_click result t out) =
        [\<lparr>da_filename = dup_filename result, da_action = a\<rparr>]) \<and>
   duplicate_actions = {''skip'', ''overwrite'', ''import_anyway''}"
proof (intro conjI ballI)
  fix r assume "r \<in> set (requests_of (DuplicateModal_clicks result clicks))"
  then have "r \<in> (\<lambda>a. \<lparr>da_filename = dup_filename result, da_action = a\<rparr>) ` duplicate_actions"
    using requests_of_clicks by blast
  then show "da_filename r = dup_filename result" "da_action r \<in> duplicate_actions" by auto
next
  fix a assume "a \<in> duplicate_actions"
  then consider "a = ''skip''" | "a = ''overwrite''" | "a = ''import_anyway''"
    by (auto simp: duplicate_actions_def)
  then show "\<exists>t. \<forall>out. requests_of (DuplicateModal_click result t out) =
        [\<lparr>da_filename = dup_filename result, da_action = a\<rparr>]"
  proof cases
    case 1
    have "\<forall>out. requests_of (DuplicateModal_click result SkipButton out) =
        [\<lparr>da_filename = dup_filename result, da_action = a\<rparr>]"
      by (simp add: 1 requests_of_handleAction)
    then show ?thesis ..
  next
    case 2
    have "\<forall>out. requests_of (DuplicateModal_click result OverwriteButton out) =
        [\<lparr>da_filename = dup_filename result, da_action = a\<rparr>]"
      by (simp add: 2 requests_of_handleAction)
    then show ?thesis ..
  next
    case 3
    have "\<forall>out. requests_of (DuplicateModal_click result ImportButton out) =
        [\<lparr>da_filename = dup_filename result, da_action = a\<rparr>]"
      by (simp add: 3 requests_of_handleAction)
    then show ?thesis ..
  qed
next
  show "duplicate_actions = {''skip'', ''overwrite'', ''import_anyway''}"
    by (simp add: duplicate_actions_def)
qed

theorem duplicate_requests_filename_and_action_witness:
  "requests_of (DuplicateModal_clicks b_jpg
      [(Overlay, Rejected ''offline''), (OverwriteButton, Resolved (JObj [(''error'', JStr ''busy'')])),
       (SkipButton, Resolved (JObj []))]) =
     [\<lparr>da_filename = ''b.jpg'', da_action = ''overwrite''\<rparr>,
      \<lparr>da_filename = ''b.jpg'', da_action = ''skip''\<rparr>] \<and>
   dup_filename b_jpg = ''b.jpg'' \<and>
   ''overwrite'' \<in> duplicate_actions \<and> ''skip'' \<in> duplicate_actions"
proof -
  have sent: "requests_of (DuplicateModal_clicks b_jpg
      [(Overlay, Rejected ''offline''), (OverwriteButton, Resolved (JObj [(''error'', JStr ''busy'')])),
       (SkipButton, Resolved (JObj []))]) =
     [\<lparr>da_filename = ''b.jpg'', da_action = ''overwrite''\<rparr>,
      \<lparr>da_filename = ''b.jpg'', da_action = ''skip''\<rparr>]"
    by (simp add: DuplicateModal_clicks_def requests_of_def b_jpg_def)
  show ?thesis
    using duplicate_requests_filename_and_action [of b_jpg
      "[(Overlay, Rejected ''offline''), (OverwriteButton, Resolved (JObj [(''error'', JStr ''busy'')])),
        (SkipButton, Resolved (JObj []))]"]
    unfolding sent by simp
qed

lemma OnAction_handleAction:
  "OnAction x \<in> set (handleAction result a out) \<longleftrightarrow>
     x = a \<and> (\<exists>data. out = Resolved data \<and> data \<noteq> JNull \<and> \<not> truthy_opt (get_prop data ''error''))"
  by (cases "(result, a, out)" rule: handleAction.cases) auto

lemma Post_handleAction:
  "Post r \<in> set (handleAction result a out) \<longleftrightarrow>
     r = \<lparr>da_filename = dup_filename result, da_action = a\<rparr>"
  by (cases "(result, a, out)" rule: handleAction.cases) auto

text \<open>
  C9, as amended. A click on the overlay calls \<open>onAction\<close> with \<open>skip\<close> and sends
  nothing. A request is posted exactly by the three action buttons, and a button calls
  \<open>onAction\<close> exactly when the response body is not \<open>null\<close> and its \<open>error\<close> member is
  absent or falsy (\<open>null\<close>, \<open>false\<close>, \<open>0\<close> or the empty string).
\<close>

theorem duplicate_overlay_and_buttons:
  "DuplicateModal_click result Overlay out = [OnAction ''skip''] \<and>
   ((\<exists>r. Post r \<in> set (DuplicateModal_click result t out)) \<longleftrightarrow>
      t \<in> {SkipButton, OverwriteButton, ImportButton}) \<and>
   (t \<in> {SkipButton, OverwriteButton, ImportButton} \<longrightarrow>
      ((\<exists>a. OnAction a \<in> set (DuplicateModal_click result t out)) \<longleftrightarrow>
       (\<exists>data. out = Resolved data \<and> data \<noteq> JNull \<and> \<not> truthy_opt (get_prop data ''error''))))"
  by (cases t) (simp_all add: OnAction_handleAction Post_handleAction)

theorem duplicate_overlay_and_buttons_witness:
  "SkipButton \<in> {SkipButton, OverwriteButton, ImportButton} \<and>
   (\<exists>a. OnAction a \<in> set (DuplicateModal_click b_jpg SkipButton (Resolved (JObj [(''error'', JNull)])))) \<and>
   \<not> (\<exists>a. OnAction a \<in> set (DuplicateModal_click b_jpg SkipButton (Resolved (JObj [(''error'', JStr ''busy'')])))) \<and>
   \<not> (\<exists>r. Post r \<in> set (DuplicateModal_click b_jpg Overlay (Rejected ''offline'')))"
  using duplicate_overlay_and_buttons [of b_jpg "Rejected ''offline''" SkipButton]
    duplicate_overlay_and_buttons [of b_jpg "Resolved (JObj [(''error'', JNull)])" SkipButton]
    duplicate_overlay_and_buttons [of b_jpg "Resolved (JObj [(''error'', JStr ''busy'')])" SkipButton]
    duplicate_overlay_and_buttons [of b_jpg "Rejected ''offline''" Overlay]
  by simp

text \<open>
  As stated, with ``only when the response body carries no error field'', the claim fails:
  the body \<open>{"error": null}\<close> carries the field, and the callback is invoked.
\<close>

theorem duplicate_callback_counterexample:
  "get_prop (JObj [(''error'', JNull)]) ''error'' = Some JNull \<and>
   OnAction ''skip'' \<in> set (DuplicateModal_click b_jpg SkipButton (Resolved (JObj [(''error'', JNull)])))"
  by simp


section \<open>Properties of the upload progress modal\<close>

lemma poll_run_Nil [simp]: "poll_run st [] = st"
  by (simp add: poll_run_def)

lemma poll_run_Cons [simp]: "poll_run st (e # evs) = poll_run (poll_step st e) evs"
  by (simp add: poll_run_def)

lemma handle_response_frame [simp]:
  "ps_requests (handle_response st out) = ps_requests st"
  "ps_jobId (handle_response st out) = ps_jobId st"
  "ps_run (handle_response st out) = ps_run st"
  "ps_mounted (handle_response st out) = ps_mounted st"
  "ps_in_flight (handle_response st out) = ps_in_flight st"
  by (cases "(st, out)" rule: handle_response.cases; simp)+

lemma handle_response_interval:
  "ps_interval (handle_response st out) = None \<or>
   ps_interval (handle_response st out) = ps_interval st"
  by (cases "(st, out)" rule: handle_response.cases) simp_all

lemma handle_response_interval_None:
  "ps_interval st = None \<Longrightarrow> ps_interval (handle_response st out) = None"
  using handle_response_interval [of st out] by auto

text \<open>The timer is never set to another delay than 300.\<close>

lemma poll_step_delay:
  assumes "ps_interval st = None \<or> ps_interval st = Some 300"
  shows "ps_interval (poll_step st e) = None \<or> ps_interval (poll_step st e) = Some 300"
proof (cases e)
  case Tick
  then show ?thesis using assms by (auto split: option.split)
next
  case (Settled r out)
  show ?thesis
    using assms handle_response_interval [of "st\<lparr>ps_in_flight := remove1 r (ps_in_flight st)\<rparr>" out]
    by (auto simp: Settled)
next
  case (Rerun j)
  then show ?thesis using assms by auto
next
  case Unmount
  then show ?thesis by simp
qed

lemma poll_run_delay:
  "ps_interval st = None \<or> ps_interval st = Some 300 \<Longrightarrow>
   ps_interval (poll_run st evs) = None \<or> ps_interval (poll_run st evs) = Some 300"
proof (induction evs arbitrary: st)
  case Nil
  then show ?case by simp
next
  case (Cons e evs)
  from Cons.IH [OF poll_step_delay [OF Cons.prems, of e]] show ?case by simp
qed

lemma poll_step_stopped:
  "ps_interval st = None \<Longrightarrow> no_rerun e \<Longrightarrow>
     ps_interval (poll_step st e) = None \<and> ps_requests (poll_step st e) = ps_requests st"
  by (cases e) (simp_all add: handle_response_interval_None)

lemma poll_run_stopped:
  "ps_interval st = None \<Longrightarrow> list_all no_rerun evs \<Longrightarrow>
     ps_requests (poll_run st evs) = ps_requests st"
proof (induction evs arbitrary: st)
  case Nil
  show ?case by simp
next
  case (Cons e evs)
  then have "no_rerun e" "list_all no_rerun evs" by simp_all
  with poll_step_stopped [OF Cons.prems(1), of e] Cons.IH [of "poll_step st e"]
  show ?case by simp
qed

lemma handle_response_quiet:
  "data \<noteq> JNull \<Longrightarrow> \<not> terminal_snapshot data \<Longrightarrow>
     handle_response st (Resolved data) = st\<lparr>ps_status := data\<rparr>"
  by (cases data) (simp_all add: terminal_snapshot_def)

lemma poll_step_quiet:
  "quiet_event e \<Longrightarrow>
     ps_interval (poll_step st e) = ps_interval st \<and>
     ps_callbacks (poll_step st e) = ps_callbacks st \<and>
     ps_jobId (poll_step st e) = ps_jobId st"
  by (cases "e" rule: quiet_event.cases) (simp_all add: handle_response_quiet split: option.split)

lemma poll_run_quiet:
  "list_all quiet_event evs \<Longrightarrow>
     ps_interval (poll_run st evs) = ps_interval st \<and>
     ps_callbacks (poll_run st evs) = ps_callbacks st \<and>
     ps_jobId (poll_run st evs) = ps_jobId st"
proof (induction evs arbitrary: st)
  case Nil
  show ?case by simp
next
  case (Cons e evs)
  then have "quiet_event e" "list_all quiet_event evs" by simp_all
  with poll_step_quiet [of e st] Cons.IH [of "poll_step st e"]
  show ?case by simp
qed

lemma handle_response_terminal:
  assumes "terminal_snapshot data"
  shows "ps_interval (handle_response st (Resolved data)) = None \<and>
         ps_callbacks (handle_response st (Resolved data)) =
           ps_callbacks st @
           [if get_prop data ''status'' = Some (JStr ''error'')
            then OnError (get_prop data ''errors'') else OnComplete data]"
  using assms by (cases data) (auto simp: terminal_snapshot_def)

lemma handle_response_failed:
  "ps_interval (handle_response st (Rejected msg)) = None \<and>
   ps_callbacks (handle_response st (Rejected msg)) = ps_callbacks st \<and>
   ps_interval (handle_response st (Resolved JNull)) = None \<and>
   ps_callbacks (handle_response st (Resolved JNull)) = ps_callbacks st"
  by simp

text \<open>
  C4, as amended. For a job id (a non-empty string), the mounted modal runs an interval
  timer of 300 ms, no history ever sets the timer to another delay, and each firing of
  the timer sends one GET for the job's status. As long as every fetch succeeds and
  reports a non-terminal status, the timer stays set and no callback has been invoked.
  When a fetch of the current run of the effect returns a snapshot with status
  \<open>complete\<close> or \<open>error\<close>, the interval is cleared and \<open>onComplete\<close> or \<open>onError\<close> is
  invoked, and no further request is sent unless React runs the effect again. A fetch
  that fails or returns \<open>null\<close> also clears the interval, without a callback. A new run
  of the effect, caused by a change of \<open>jobId\<close>, \<open>onComplete\<close> or \<open>onError\<close> while the modal
  is mounted, starts a new interval of 300 ms.
\<close>

theorem poll_until_terminal_or_failure:
  assumes job: "\<not> no_job jobId"
    and quiet: "list_all quiet_event evs"
    and final: "terminal_snapshot data"
    and flight: "ps_run st \<in> set (ps_in_flight st)"
    and same: "list_all no_rerun evs'"
    and mounted: "ps_mounted st"
  shows "ps_interval (UploadProgressModal_mount jobId) = Some 300 \<and>
         (ps_interval (poll_run (UploadProgressModal_mount jobId) hist) = None \<or>
          ps_interval (poll_run (UploadProgressModal_mount jobId) hist) = Some 300) \<and>
         ps_interval (poll_run (UploadProgressModal_mount jobId) evs) = Some 300 \<and>
         ps_callbacks (poll_run (UploadProgressModal_mount jobId) evs) = [] \<and>
         ps_requests (poll_step (poll_run (UploadProgressModal_mount jobId) evs) Tick) =
           ps_requests (poll_run (UploadProgressModal_mount jobId) evs) @ [GetStatus jobId] \<and>
         ps_interval (poll_step st (Settled (ps_run st) (Resolved data))) = None \<and>
         ps_callbacks (poll_step st (Settled (ps_run st) (Resolved data))) =
           ps_callbacks st @
           [if get_prop data ''status'' = Some (JStr ''error'')
            then OnError (get_prop data ''errors'') else OnComplete data] \<and>
         ps_requests (poll_run (poll_step st (Settled (ps_run st) (Resolved data))) evs') =
           ps_requests st \<and>
         ps_interval (poll_step st (Settled (ps_run st) (Rejected msg))) = None \<and>
         ps_callbacks (poll_step st (Settled (ps_run st) (Rejected msg))) = ps_callbacks st \<and>
         ps_interval (poll_step st (Settled (ps_run st) (Resolved JNull))) = None \<and>
         ps_callbacks (poll_step st (Settled (ps_run st) (Resolved JNull))) = ps_callbacks st \<and>
         ps_interval (poll_step st (Rerun jobId)) = Some 300"
proof -
  let ?m = "UploadProgressModal_mount jobId"
  have m: "ps_interval ?m = Some 300"
    using job by (simp add: UploadProgressModal_mount_def)
  have d: "ps_interval (poll_run ?m hist) = None \<or> ps_interval (poll_run ?m hist) = Some 300"
    using poll_run_delay [of ?m hist] m by simp
  note Q = poll_run_quiet [OF quiet, of ?m]
  have r: "ps_interval (poll_run ?m evs) = Some 300"
    using Q m by simp
  have n: "ps_callbacks (poll_run ?m evs) = []"
    using Q by (simp add: UploadProgressModal_mount_def)
  have j: "ps_jobId (poll_run ?m evs) = jobId"
    using Q by (simp add: UploadProgressModal_mount_def)
  have t: "ps_requests (poll_step (poll_run ?m evs) Tick) =
           ps_requests (poll_run ?m evs) @ [GetStatus jobId]"
    using r j by simp
  let ?st1 = "st\<lparr>ps_in_flight := remove1 (ps_run st) (ps_in_flight st)\<rparr>"
  have s: "poll_step st (Settled (ps_run st) out) = handle_response ?st1 out" for out
    using flight by simp
  have i: "ps_interval (poll_step st (Settled (ps_run st) (Resolved data))) = None"
    and c: "ps_callbacks (poll_step st (Settled (ps_run st) (Resolved data))) = ps_callbacks st @
           [if get_prop data ''status'' = Some (JStr ''error'')
            then OnError (get_prop data ''errors'') else OnComplete data]"
    unfolding s using handle_response_terminal [OF final, of ?st1] by simp_all
  have q: "ps_requests (poll_run (poll_step st (Settled (ps_run st) (Resolved data))) evs') =
           ps_requests st"
    using poll_run_stopped [OF i same] unfolding s by simp
  have f: "ps_interval (poll_step st (Settled (ps_run st) (Rejected msg))) = None"
    "ps_callbacks (poll_step st (Settled (ps_run st) (Rejected msg))) = ps_callbacks st"
    "ps_interval (poll_step st (Settled (ps_run st) (Resolved JNull))) = None"
    "ps_callbacks (poll_step st (Settled (ps_run st) (Resolved JNull))) = ps_callbacks st"
    unfolding s by simp_all
  have u: "ps_interval (poll_step st (Rerun jobId)) = Some 300"
    using job mounted by simp
  from m d r n t i c q f u show ?thesis by blast
qed

lemma quiet_run:
  "poll_run fresh quiet_events =
     fresh\<lparr>ps_status := processing_snapshot, ps_in_flight := [0],
           ps_requests := [GetStatus (Some ''job-1''), GetStatus (Some ''job-1'')]\<rparr>"
  by (simp add: quiet_events_def fresh_def UploadProgressModal_mount_def processing_snapshot_def)

theorem poll_until_terminal_or_failure_witness:
  "\<not> no_job (Some ''job-1'') \<and>
   list_all quiet_event quiet_events \<and>
   terminal_snapshot complete_snapshot \<and>
   ps_run (poll_run fresh quiet_events) \<in> set (ps_in_flight (poll_run fresh quiet_events)) \<and>
   list_all no_rerun [Tick, Settled 0 (Resolved complete_snapshot), Unmount] \<and>
   ps_mounted (poll_run fresh quiet_events) \<and>
   ps_run (poll_run fresh quiet_events) = 0 \<and>
   ps_interval (poll_run fresh quiet_events) = Some 300 \<and>
   ps_interval (poll_step (poll_run fresh quiet_events)
      (Settled 0 (Resolved complete_snapshot))) = None \<and>
   ps_callbacks (poll_step (poll_run fresh quiet_events)
      (Settled 0 (Resolved complete_snapshot))) = [OnComplete complete_snapshot] \<and>
   ps_requests (poll_run
      (poll_step (poll_run fresh quiet_events) (Settled 0 (Resolved complete_snapshot)))
      [Tick, Settled 0 (Resolved complete_snapshot), Unmount]) =
     [GetStatus (Some ''job-1''), GetStatus (Some ''job-1'')] \<and>
   ps_interval (poll_step (poll_run fresh quiet_events)
      (Settled 0 (Rejected ''offline''))) = None \<and>
   ps_callbacks (poll_step (poll_run fresh quiet_events)
      (Settled 0 (Rejected ''offline''))) = [] \<and>
   ps_interval (poll_step (poll_run fresh quiet_events) (Rerun (Some ''job-1''))) = Some 300"
proof -
  let ?st = "poll_run fresh quiet_events"
  let ?evs' = "[Tick, Settled 0 (Resolved complete_snapshot), Unmount]"
  have h1: "\<not> no_job (Some ''job-1'')"
    by simp
  have h2: "list_all quiet_event quiet_events"
    by (simp add: quiet_events_def processing_snapshot_def terminal_snapshot_def)
  have h3: "terminal_snapshot complete_snapshot"
    by (simp add: complete_snapshot_def terminal_snapshot_def)
  have z: "ps_run ?st = 0"
    unfolding quiet_run by (simp add: fresh_def UploadProgressModal_mount_def)
  have h4: "ps_run ?st \<in> set (ps_in_flight ?st)"
    unfolding quiet_run by (simp add: fresh_def UploadProgressModal_mount_def)
  have h5: "list_all no_rerun ?evs'"
    by simp
  have h6: "ps_mounted ?st"
    unfolding quiet_run by (simp add: fresh_def UploadProgressModal_mount_def)
  have e: "get_prop complete_snapshot ''status'' \<noteq> Some (JStr ''error'')"
    by (simp add: complete_snapshot_def)
  have c0: "ps_callbacks ?st = []"
    and p0: "ps_requests ?st = [GetStatus (Some ''job-1''), GetStatus (Some ''job-1'')]"
    unfolding quiet_run by (simp_all add: fresh_def UploadProgressModal_mount_def)
  note T = poll_until_terminal_or_failure [OF h1 h2 h3 h4 h5 h6, of "[]" "''offline''",
      unfolded z, folded fresh_def]
  from T have r: "ps_interval ?st = Some 300"
    by blast
  from T have i: "ps_interval (poll_step ?st (Settled 0 (Resolved complete_snapshot))) = None"
    by blast
  from T have "ps_callbacks (poll_step ?st (Settled 0 (Resolved complete_snapshot))) =
      ps_callbacks ?st @
      [if get_prop complete_snapshot ''status'' = Some (JStr ''error'')
       then OnError (get_prop complete_snapshot ''errors'') else OnComplete complete_snapshot]"
    by blast
  then have c: "ps_callbacks (poll_step ?st (Settled 0 (Resolved complete_snapshot))) =
      [OnComplete complete_snapshot]"
    by (simp only: c0 e if_False append_Nil)
  from T have "ps_requests (poll_run
      (poll_step ?st (Settled 0 (Resolved complete_snapshot))) ?evs') = ps_requests ?st"
    by blast
  then have q: "ps_requests (poll_run
      (poll_step ?st (Settled 0 (Resolved complete_snapshot))) ?evs') =
      [GetStatus (Some ''job-1''), GetStatus (Some ''job-1'')]"
    by (simp only: p0)
  from T have f: "ps_interval (poll_step ?st (Settled 0 (Rejected ''offline''))) = None"
    by blast
  from T have "ps_callbacks (poll_step ?st (Settled 0 (Rejected ''offline''))) = ps_callbacks ?st"
    by blast
  then have g: "ps_callbacks (poll_step ?st (Settled 0 (Rejected ''offline''))) = []"
    by (simp only: c0)
  from T have u: "ps_interval (poll_step ?st (Rerun (Some ''job-1''))) = Some 300"
    by blast
  from h1 h2 h3 h4 h5 h6 z r i c q f g u show ?thesis
    by blast
qed

text \<open>
  As stated, the claim fails in two places. The client does not keep polling while the
  reported status is non-terminal: after a snapshot with status \<open>processing\<close>, one fetch
  that fails clears the interval for good, and no callback is invoked. And it can poll
  again after a terminal snapshot: when a callback prop changes identity after the
  snapshot with status \<open>complete\<close> was handled, the effect runs again and the next firing
  of the new timer sends another GET.
\<close>

theorem poll_claim_counterexample:
  "\<not> terminal_snapshot processing_snapshot \<and>
   ps_interval (poll_run fresh
      [Tick, Settled 0 (Resolved processing_snapshot), Tick, Settled 0 (Rejected ''offline'')]) =
     None \<and>
   ps_callbacks (poll_run fresh
      [Tick, Settled 0 (Resolved processing_snapshot), Tick, Settled 0 (Rejected ''offline'')]) =
     [] \<and>
   terminal_snapshot complete_snapshot \<and>
   ps_requests (poll_run fresh [Tick, Settled 0 (Resolved complete_snapshot)]) =
     [GetStatus (Some ''job-1'')] \<and>
   ps_requests (poll_run fresh
      [Tick, Settled 0 (Resolved complete_snapshot), Rerun (Some ''job-1''), Tick]) =
     [GetStatus (Some ''job-1''), GetStatus (Some ''job-1'')]"
  by (simp add: fresh_def UploadProgressModal_mount_def processing_snapshot_def
      complete_snapshot_def terminal_snapshot_def)

text \<open>
  The modal never polls for a missing job id. A response to a fetch of an earlier run
  still invokes its callback, and leaves the timer of the current run set.
\<close>

lemma no_job_no_polling:
  "no_job jobId \<Longrightarrow> list_all no_rerun evs \<Longrightarrow>
     ps_requests (poll_run (UploadProgressModal_mount jobId) evs) = []"
  using poll_run_stopped [of "UploadProgressModal_mount jobId" evs]
  by (simp add: UploadProgressModal_mount_def)

lemma stale_response_keeps_timer:
  "ps_interval (poll_run fresh
      [Tick, Rerun (Some ''job-1''), Settled 0 (Resolved complete_snapshot)]) = Some 300 \<and>
   ps_callbacks (poll_run fresh
      [Tick, Rerun (Some ''job-1''), Settled 0 (Resolved complete_snapshot)]) =
     [OnComplete complete_snapshot]"
  by (simp add: fresh_def UploadProgressModal_mount_def complete_snapshot_def)


section \<open>Properties of the ingestion pipeline\<close>

lemma submit_inv: "submit jid now files = Inr job \<Longrightarrow> pipeline_inv files job"
  by (auto simp: submit_def pipeline_inv_def job_terminal_def split: if_splits)

lemma settle_simps:
  "uj_results (settle job rs f out) = rs @ [\<lparr>fr_filename = uf_filename f, fr_status = fst out, fr_error = snd out\<rparr>]"
  "uj_queue (settle job rs f out) = uj_queue job"
  "uj_status (settle job rs f out) = uj_status job"
  "uj_total_files (settle job rs f out) = uj_total_files job"
  "uj_paused (settle job rs f out) = (if fst out = duplicate_pending \<or> fst out = crop_pending then Some f else None)"
  by (simp_all add: settle_def Let_def)

lemma advance_inv: "pipeline_inv files job \<Longrightarrow> pipeline_inv files (advance eps job)"
  unfolding pipeline_inv_def advance_def job_terminal_def 
  by (auto simp: settle_simps split: job_status.splits option.splits list.splits)

lemma awaiting_Some:
  "awaiting job name p = Some f \<Longrightarrow> uj_paused job = Some f \<and> uj_results job \<noteq> []"
  by (auto simp: awaiting_def split: option.splits if_splits)

lemma resettle_inv:
  assumes "pipeline_inv files job" "uj_paused job = Some f" "uj_results job \<noteq> []"
  shows "pipeline_inv files (settle job (butlast (uj_results job)) f out)"
proof -
  from assms have l: "fr_filename (last (uj_results job)) = uf_filename f" and p: "uj_status job = job_processing"
    by (simp_all add: pipeline_inv_def)
  have "map fr_filename (butlast (uj_results job)) @ [uf_filename f] = map fr_filename (uj_results job)"
    using assms(3) l by (metis append_butlast_last_id list.simps(8,9) map_append)
  then show ?thesis
    using assms(1) p by (simp add: pipeline_inv_def settle_simps job_terminal_def)
qed

lemma job_apply_inv: "pipeline_inv files job \<Longrightarrow> pipeline_inv files (job_apply eps job ev)"
proof (cases ev)
  case Advance
  assume "pipeline_inv files job"
  then show ?thesis by (simp add: job_apply_def Advance advance_inv)
next
  case (ResolveDuplicate name a)
  assume i: "pipeline_inv files job"
  show ?thesis
  proof (cases "resolveDuplicate eps job name a")
    case (Inl e)
    then show ?thesis using i by (simp add: job_apply_def ResolveDuplicate)
  next
    case (Inr job')
    then have "\<exists>f. awaiting job name duplicate_pending = Some f \<and>
        job' = settle job (butlast (uj_results job)) f
          (case a of skip \<Rightarrow> (skipped, None) | overwrite \<Rightarrow> aspect_check eps f
           | import_anyway \<Rightarrow> aspect_check eps f)"
      by (auto simp: resolveDuplicate_def split: if_splits option.splits)
    then obtain f out where "awaiting job name duplicate_pending = Some f"
      and j: "job' = settle job (butlast (uj_results job)) f out"
      by blast
    with awaiting_Some have "uj_paused job = Some f" "uj_results job \<noteq> []" by blast+
    from resettle_inv [OF i this] show ?thesis
      by (simp add: job_apply_def ResolveDuplicate Inr j)
  qed
next
  case (ResolvePosition name box)
  assume i: "pipeline_inv files job"
  show ?thesis
  proof (cases "resolvePosition job name box")
    case (Inl e)
    then show ?thesis using i by (simp add: job_apply_def ResolvePosition)
  next
    case (Inr job')
    then have "\<exists>f. awaiting job name crop_pending = Some f \<and>
        job' = settle job (butlast (uj_results job)) f (transform_and_commit f)"
      by (auto simp: resolvePosition_def split: if_splits option.splits)
    then obtain f out where "awaiting job name crop_pending = Some f"
      and j: "job' = settle job (butlast (uj_results job)) f out"
      by blast
    with awaiting_Some have "uj_paused job = Some f" "uj_results job \<noteq> []" by blast+
    from resettle_inv [OF i this] show ?thesis
      by (simp add: job_apply_def ResolvePosition Inr j)
  qed
qed

lemma job_run_inv: "pipeline_inv files job \<Longrightarrow> pipeline_inv files (job_run eps job evs)"
proof (induction evs arbitrary: job)
  case Nil
  then show ?case by (simp add: job_run_def)
next
  case (Cons ev evs)
  from Cons.IH [OF job_apply_inv [OF Cons.prems, of eps ev]]
  show ?case by (simp add: job_run_def)
qed

lemma scenario_run:
  "job_run (1 / 20) scenario_job scenario_events =
     scenario_job\<lparr>uj_status := job_complete, uj_processed_count := 3,
       uj_results := [\<lparr>fr_filename = ''a.jpg'', fr_status = accepted, fr_error = None\<rparr>,
                      \<lparr>fr_filename = ''b.jpg'', fr_status = skipped, fr_error = None\<rparr>,
                      \<lparr>fr_filename = ''d.png'', fr_status = accepted, fr_error = None\<rparr>],
       uj_current_step := ''Processing d.png'', uj_queue := []\<rparr>"
  by (simp add: job_run_def scenario_events_def scenario_job_def scenario_files_def job_apply_def
      advance_def settle_def first_pass_def aspect_check_def transform_and_commit_def
      target_aspect_def target_canvas_def
      resolveDuplicate_def resolvePosition_def awaiting_def job_filenames_def CropBox_inv_def
      js_gt_def)

lemma declared_target_aspect: "targetAspect = Num target_aspect"
  by (simp add: targetAspect_def target_aspect_def target_canvas_def)

text \<open>
  C5. The pipeline's configured output canvas is exactly 3840 by 2160, and the target
  aspect, which is the aspect of that canvas, equals \<open>16 / 9\<close> as a rational number. It
  is the aspect the crop decision uses: a readable image of \<open>w\<close> by \<open>h\<close> pixels is left
  waiting for a crop box exactly when \<open>w / h\<close> is further than the tolerance from
  \<open>16 / 9\<close>.
\<close>

theorem target_canvas_aspect_sixteen_ninths:
  "target_canvas = (3840, 2160) \<and>
   target_aspect = of_nat (fst target_canvas) / of_nat (snd target_canvas) \<and>
   target_aspect = 16 / 9 \<and>
   (fst (aspect_check eps
      \<lparr>uf_filename = name, uf_dims = Some (w, h), uf_match = m, uf_storage_ok = s\<rparr>) =
    crop_pending) =
   (eps < \<bar>of_nat w / of_nat h - 16 / 9\<bar>)"
  by (simp add: aspect_check_def transform_and_commit_def target_aspect_def target_canvas_def)

text \<open>
  C7. For every submitted batch and every history of the job (pipeline steps and
  resolution calls, succeeding or not), once the job's status is \<open>complete\<close> or
  \<open>error\<close> the number of results equals \<open>total_files\<close>, which is the number of files
  submitted, and the results name the files in submission order.
\<close>

theorem terminal_results_complete_in_order:
  assumes "submit jid now files = Inr job0"
    and "job_terminal (job_run eps job0 evs)"
  shows "length (uj_results (job_run eps job0 evs)) = uj_total_files (job_run eps job0 evs) \<and>
         uj_total_files (job_run eps job0 evs) = length files \<and>
         map fr_filename (uj_results (job_run eps job0 evs)) = map uf_filename files"
proof -
  have inv: "pipeline_inv files (job_run eps job0 evs)"
    using job_run_inv [OF submit_inv [OF assms(1)]] .
  then have t: "uj_total_files (job_run eps job0 evs) = length files"
    and a: "map fr_filename (uj_results (job_run eps job0 evs)) @
            map uf_filename (uj_queue (job_run eps job0 evs)) = map uf_filename files"
    by (simp_all add: pipeline_inv_def)
  from inv assms(2) have q: "uj_queue (job_run eps job0 evs) = []"
    by (simp add: pipeline_inv_def)
  have m: "map fr_filename (uj_results (job_run eps job0 evs)) = map uf_filename files"
    using a unfolding q by simp
  from m have l: "length (uj_results (job_run eps job0 evs)) = length files"
    by (metis length_map)
  from t m l show ?thesis by simp
qed

theorem terminal_results_complete_in_order_witness:
  "submit ''job-1'' 0 scenario_files = Inr scenario_job \<and>
   job_terminal (job_run (1 / 20) scenario_job scenario_events) \<and>
   length (uj_results (job_run (1 / 20) scenario_job scenario_events)) = 3 \<and>
   uj_total_files (job_run (1 / 20) scenario_job scenario_events) = 3 \<and>
   map fr_filename (uj_results (job_run (1 / 20) scenario_job scenario_events)) =
     [''a.jpg'', ''b.jpg'', ''d.png'']"
proof -
  have h1: "submit ''job-1'' 0 scenario_files = Inr scenario_job"
    by (simp add: submit_def scenario_job_def scenario_files_def)
  have h2: "job_terminal (job_run (1 / 20) scenario_job scenario_events)"
    by (simp add: scenario_run job_terminal_def)
  show ?thesis
    using h1 h2 terminal_results_complete_in_order [OF h1 h2]
    by (simp add: scenario_files_def)
qed

text \<open>
  The scenario ends as section 8 of the specification says: status \<open>complete\<close>,
  progress 100, and the results accepted, skipped, accepted.
\<close>

lemma scenario_outcome:
  "uj_status (job_run (1 / 20) scenario_job scenario_events) = job_complete \<and>
   progress (job_run (1 / 20) scenario_job scenario_events) = 100 \<and>
   map fr_status (uj_results (job_run (1 / 20) scenario_job scenario_events)) =
     [accepted, skipped, accepted]"
  unfolding scenario_run progress_def by (simp add: scenario_job_def)

lemma progress_div:
  "progress job = int (uj_processed_count job * 100 div uj_total_files job)"
proof -
  have "(of_nat (uj_processed_count job) :: rat) / of_nat (uj_total_files job) * 100 =
        of_nat (uj_processed_count job * 100) / of_nat (uj_total_files job)"
    by simp
  then show ?thesis
    unfolding progress_def by (simp only: floor_divide_of_nat_eq)
qed

lemma observation_agree:
  assumes "\<forall>k \<in> set snapshot_fields. map_of kvs k = map_of kvs' k"
  shows "observation (handle_response st (Resolved (JObj kvs))) =
         observation (handle_response st (Resolved (JObj kvs')))"
proof -
  from assms have e: "map_of kvs ''status'' = map_of kvs' ''status''"
    "map_of kvs ''progress'' = map_of kvs' ''progress''"
    "map_of kvs ''results'' = map_of kvs' ''results''"
    "map_of kvs ''total_files'' = map_of kvs' ''total_files''"
    "map_of kvs ''current_step'' = map_of kvs' ''current_step''"
    "map_of kvs ''errors'' = map_of kvs' ''errors''"
    by (simp_all add: snapshot_fields_def)
  show ?thesis
    by (simp add: observation_def render_def e)
qed

lemma consumed_status:
  "observation (handle_response fresh (Resolved (JObj [(''status'', JStr ''complete'')]))) \<noteq>
   observation (handle_response fresh (Resolved (JObj [(''status'', JStr ''processing'')])))"
  by (simp add: observation_def fresh_def UploadProgressModal_mount_def)

lemma consumed_errors:
  "observation (handle_response fresh (Resolved (JObj [(''errors'', JArr [JStr ''disk full'']), (''status'', JStr ''error'')]))) \<noteq>
   observation (handle_response fresh (Resolved (JObj [(''errors'', JArr []), (''status'', JStr ''error'')])))"
  by (simp add: observation_def fresh_def UploadProgressModal_mount_def)

lemma consumed_progress:
  "observation (handle_response fresh (Resolved (JObj [(''progress'', JNum 33)]))) \<noteq>
   observation (handle_response fresh (Resolved (JObj [(''progress'', JNum 66)])))"
  by (simp add: observation_def render_def fresh_def UploadProgressModal_mount_def)

lemma consumed_results:
  "observation (handle_response fresh (Resolved (JObj [(''results'', JArr [JNull])]))) \<noteq>
   observation (handle_response fresh (Resolved (JObj [(''results'', JArr [])])))"
  by (simp add: observation_def render_def fresh_def UploadProgressModal_mount_def)

lemma consumed_total_files:
  "observation (handle_response fresh (Resolved (JObj [(''total_files'', JNum 3)]))) \<noteq>
   observation (handle_response fresh (Resolved (JObj [(''total_files'', JNum 4)])))"
  by (simp add: observation_def render_def fresh_def UploadProgressModal_mount_def)

lemma consumed_current_step:
  "observation (handle_response fresh (Resolved (JObj [(''current_step'', JStr ''a'')]))) \<noteq>
   observation (handle_response fresh (Resolved (JObj [(''current_step'', JStr ''b'')])))"
  by (simp add: observation_def render_def fresh_def UploadProgressModal_mount_def)

lemma fields_consumed:
  "\<forall>k \<in> set snapshot_fields. \<exists>base v v'.
      observation (handle_response fresh (Resolved (JObj ((k, v) # base)))) \<noteq>
      observation (handle_response fresh (Resolved (JObj ((k, v') # base))))"
  unfolding snapshot_fields_def
  using consumed_status consumed_errors consumed_progress consumed_results
    consumed_total_files consumed_current_step
  by (simp del: handle_response.simps) blast

text \<open>
  C6. The snapshot of a job (with at least one file) is an object of exactly the six
  members \<open>status\<close>, \<open>progress\<close>, \<open>results\<close>, \<open>total_files\<close>, \<open>current_step\<close> and
  \<open>errors\<close>, each holding the job's value, with
  \<open>progress = floor(processed_count / total_files * 100)\<close>, which is the integer
  quotient of \<open>processed_count * 100\<close> by \<open>total_files\<close>. These six are exactly the
  members the polling modal consumes: two snapshot objects that agree on them make the
  modal behave and render alike, and for each of the six there are two objects that
  differ in that member only and make it behave or render differently.
\<close>

theorem status_snapshot_six_fields:
  assumes "0 < uj_total_files job"
  shows "(\<exists>kvs. status_snapshot job = JObj kvs \<and> map fst kvs = snapshot_fields) \<and>
     get_prop (status_snapshot job) ''progress'' =
       Some (JNum (of_int \<lfloor>(of_nat (uj_processed_count job) :: rat) / of_nat (uj_total_files job) * 100\<rfloor>)) \<and>
     progress job = int (uj_processed_count job * 100 div uj_total_files job) \<and>
     get_prop (status_snapshot job) ''status'' = Some (JStr (job_status_name (uj_status job))) \<and>
     get_prop (status_snapshot job) ''results'' = Some (JArr (map FileResult_json (uj_results job))) \<and>
     get_prop (status_snapshot job) ''total_files'' = Some (JNum (of_nat (uj_total_files job))) \<and>
     get_prop (status_snapshot job) ''current_step'' = Some (JStr (uj_current_step job)) \<and>
     get_prop (status_snapshot job) ''errors'' = Some (JArr (map JStr (uj_errors job))) \<and>
     ((\<forall>k \<in> set snapshot_fields. map_of kvs k = map_of kvs' k) \<longrightarrow>
        observation (handle_response st (Resolved (JObj kvs))) =
        observation (handle_response st (Resolved (JObj kvs')))) \<and>
     (\<forall>k \<in> set snapshot_fields. \<exists>base v v'.
        observation (handle_response fresh (Resolved (JObj ((k, v) # base)))) \<noteq>
        observation (handle_response fresh (Resolved (JObj ((k, v') # base)))))"
  using observation_agree [of kvs kvs' st] fields_consumed progress_div [of job]
  by (simp add: status_snapshot_def snapshot_fields_def progress_def)

lemma after_first_file_eq:
  "after_first_file =
     scenario_job\<lparr>uj_status := job_processing, uj_processed_count := 1,
       uj_results := [\<lparr>fr_filename = ''a.jpg'', fr_status = accepted, fr_error = None\<rparr>],
       uj_current_step := ''Processing a.jpg'', uj_queue := tl scenario_files\<rparr>"
  by (simp add: after_first_file_def job_run_def scenario_job_def scenario_files_def
      job_apply_def advance_def settle_def first_pass_def aspect_check_def
      transform_and_commit_def target_aspect_def target_canvas_def)

theorem status_snapshot_six_fields_witness:
  "0 < uj_total_files after_first_file \<and>
   get_prop (status_snapshot after_first_file) ''progress'' = Some (JNum 33) \<and>
   progress after_first_file = 33 \<and>
   get_prop (status_snapshot after_first_file) ''total_files'' = Some (JNum 3) \<and>
   get_prop (status_snapshot after_first_file) ''status'' = Some (JStr ''processing'')"
proof -
  have h: "0 < uj_total_files after_first_file"
    by (simp add: after_first_file_eq scenario_job_def)
  have p: "uj_processed_count after_first_file * 100 div uj_total_files after_first_file = 33"
    by (simp add: after_first_file_eq scenario_job_def)
  have "progress after_first_file = 33"
    using status_snapshot_six_fields [OF h] unfolding p by simp
  then show ?thesis
    using h by (simp add: status_snapshot_def after_first_file_eq scenario_job_def)
qed

end
